theory Spec2Isabelle
  imports Main "HOL-Library.Char_ord" "HOL-Library.List_Lexorder" "HOL-Library.Multiset"
begin

section \<open>Python strings\<close>

text \<open>
  A Python \<open>str\<close> is modelled as a \<open>string\<close> whose characters are the code points
  below 256 (Latin-1). The three library methods the program uses on it are written
  out for these characters. \<open>str.strip()\<close> removes the twelve characters for which
  \<open>str.isspace\<close> holds. \<open>str.lower()\<close> changes the 56 uppercase letters (A to Z, and
  U+00C0 to U+00DE without the multiplication sign), each to the letter 32 places on.
  \<open>str.upper()\<close> changes the corresponding lowercase letters, each to the letter 32
  places back, and the sharp s (U+00DF) to \<open>SS\<close>. The two remaining letters with an
  uppercase form, U+00B5 and U+00FF, have it outside Latin-1 (U+039C and U+0178); the
  model leaves them as they are, and neither form occurs in a rating code or a genre.
\<close>

definition whitespace :: "char list" where
  "whitespace = [CHR 0x09, CHR 0x0A, CHR 0x0B, CHR 0x0C, CHR 0x0D,
                 CHR 0x1C, CHR 0x1D, CHR 0x1E, CHR 0x1F, CHR 0x20,
                 CHR 0x85, CHR 0xA0]"

definition isspace :: "char \<Rightarrow> bool" where
  "isspace c = (c \<in> set whitespace)"

definition strip :: "string \<Rightarrow> string" where
  "strip s = rev (dropWhile isspace (rev (dropWhile isspace s)))"

definition cased_upper :: "char \<Rightarrow> bool" where
  "cased_upper c = (let n = of_char c :: nat in
                  (65 \<le> n \<and> n \<le> 90) \<or> (192 \<le> n \<and> n \<le> 214) \<or> (216 \<le> n \<and> n \<le> 222))"

definition lower_char :: "char \<Rightarrow> char" where
  "lower_char c = (if cased_upper c then char_of (of_char c + 32 :: nat) else c)"

definition lower :: "string \<Rightarrow> string" where
  "lower s = map lower_char s"

definition cased_lower :: "char \<Rightarrow> bool" where
  "cased_lower c = (let n = of_char c :: nat in
                  (97 \<le> n \<and> n \<le> 122) \<or> (224 \<le> n \<and> n \<le> 246) \<or> (248 \<le> n \<and> n \<le> 254))"

definition upper_char :: "char \<Rightarrow> string" where
  "upper_char c = (if c = CHR 0xDF then ''SS''
                   else if cased_lower c then [char_of (of_char c - 32 :: nat)]
                   else [c])"

definition upper :: "string \<Rightarrow> string" where
  "upper s = concat (map upper_char s)"

text \<open>\<open>str.split(sep)\<close> with a one-character separator: n separators give n + 1 parts.\<close>

fun split_on :: "char \<Rightarrow> string \<Rightarrow> string list" where
  "split_on sep [] = [[]]"
| "split_on sep (c # cs) =
     (if c = sep then [] # split_on sep cs
      else (case split_on sep cs of
              p # ps \<Rightarrow> (c # p) # ps
            | [] \<Rightarrow> [[c]]))"

section \<open>Errors\<close>

text \<open>
  Every \<open>raise\<close> of the program is a \<open>ValueError\<close> with a message; \<open>KeyError\<close>,
  \<open>TypeError\<close> and \<open>AttributeError\<close> are what the interpreter raises on a missing
  dictionary key, on a comparison with \<open>None\<close> and on a method the object's class
  does not have.
\<close>

datatype error = ValueError string | KeyError | TypeError | AttributeError

section \<open>module02/movie/rating.py\<close>

record MovieRating =
  code :: string
  description :: string

text \<open>
  The class-level state of \<open>MovieRating\<close>: the objects created so far (an object's
  identity is its position in \<open>rating_objects\<close>) and the dictionary \<open>_instances\<close> from
  normalized code to object, in insertion order.
\<close>

type_synonym rating_ref = nat

record rating_registry =
  rating_objects :: "MovieRating list"
  rating_instances :: "(string \<times> rating_ref) list"

definition order :: "string list" where
  "order = [''NR'', ''G'', ''PG'', ''PG-13'', ''R'', ''NC17'']"

definition empty_ratings :: rating_registry where
  "empty_ratings = \<lparr>rating_objects = [], rating_instances = []\<rparr>"

text \<open>\<open>MovieRating(code=c, description=d)\<close>: the dataclass constructor followed by
  \<open>__post_init__\<close>.\<close>

definition MovieRating_init :: "string \<Rightarrow> string \<Rightarrow> rating_registry \<Rightarrow> error + rating_registry" where
  "MovieRating_init c d reg =
     (if c = [] then Inl (ValueError ''rating code can not be empty'')
      else if d = [] then Inl (ValueError ''rating description can not be empty'')
      else let normalized = upper c in
        if normalized \<notin> set order
          then Inl (ValueError (''unknown rating code: '' @ normalized))
        else if normalized \<in> fst ` set (rating_instances reg)
          then Inl (ValueError (''Rating '' @ [CHR 0x27] @ normalized @ [CHR 0x27]
                                @ '' already exists. Use get_rating() instead.''))
        else Inr \<lparr>rating_objects = rating_objects reg @ [\<lparr>code = c, description = d\<rparr>],
                  rating_instances = rating_instances reg
                                       @ [(normalized, length (rating_objects reg))]\<rparr>)"

definition descriptions :: "(string \<times> string) list" where
  "descriptions =
     [(''NR'', ''Not rated''),
      (''G'', ''All ages''),
      (''PG'', ''Parental guidance advised''),
      (''PG-13'', ''Parental guidance strongly advised''),
      (''R'', ''Under 17, parental guidance advised''),
      (''NC17'', ''For adults only'')]"

fun create_ratings :: "(string \<times> string) list \<Rightarrow> rating_registry \<Rightarrow> error + rating_registry" where
  "create_ratings [] reg = Inr reg"
| "create_ratings ((c, d) # rest) reg =
     (if c \<notin> fst ` set (rating_instances reg)
      then (case MovieRating_init c d reg of
              Inl e \<Rightarrow> Inl e
            | Inr reg' \<Rightarrow> create_ratings rest reg')
      else create_ratings rest reg)"

definition create_predefined_ratings :: "rating_registry \<Rightarrow> error + rating_registry" where
  "create_predefined_ratings reg = create_ratings descriptions reg"

text \<open>The registry once the module is imported: the last line of rating.py runs
  \<open>_create_predefined_ratings()\<close> on the empty class state.\<close>

definition ratings :: rating_registry where
  "ratings = (case create_predefined_ratings empty_ratings of
                Inr reg \<Rightarrow> reg | Inl e \<Rightarrow> empty_ratings)"

definition get_rating_in :: "rating_registry \<Rightarrow> string option \<Rightarrow> error + rating_ref" where
  "get_rating_in reg c =
     (case c of
        None \<Rightarrow> Inl (ValueError ''rating code cannot be None'')
      | Some s \<Rightarrow>
          (let normalized = upper (strip s) in
           case map_of (rating_instances reg) normalized of
             None \<Rightarrow> Inl (ValueError (''Unknown rating code: '' @ normalized))
           | Some r \<Rightarrow> Inr r))"

definition get_rating :: "string option \<Rightarrow> error + rating_ref" where
  "get_rating c = get_rating_in ratings c"

text \<open>\<open>_sort_index\<close>: \<open>list.index\<close> raises \<open>ValueError\<close> when the code is not in \<open>_order\<close>.\<close>

fun index_of :: "string list \<Rightarrow> string \<Rightarrow> nat option" where
  "index_of [] x = None"
| "index_of (y # ys) x = (if y = x then Some 0 else map_option Suc (index_of ys x))"

definition sort_index :: "MovieRating \<Rightarrow> error + nat" where
  "sort_index r = (case index_of order (upper (code r)) of
                     None \<Rightarrow> Inl (ValueError ''not in list'')
                   | Some i \<Rightarrow> Inr i)"

definition rating_lt :: "MovieRating \<Rightarrow> MovieRating \<Rightarrow> error + bool" where
  "rating_lt a b = (case sort_index a of
                      Inl e \<Rightarrow> Inl e
                    | Inr i \<Rightarrow> (case sort_index b of
                                 Inl e \<Rightarrow> Inl e
                               | Inr j \<Rightarrow> Inr (i < j)))"

text \<open>\<open>a > b\<close>: the class defines \<open>__lt__\<close> only, so the interpreter evaluates the
  reflected \<open>b.__lt__(a)\<close>.\<close>

definition rating_gt :: "MovieRating \<Rightarrow> MovieRating \<Rightarrow> error + bool" where
  "rating_gt a b = rating_lt b a"

section \<open>module02/person/person.py\<close>

record Person =
  fullname :: string

text \<open>
  The class-level state of \<open>Person\<close>: the objects created so far (identity is the
  position in \<open>person_objects\<close>) and the dictionary \<open>_instances\<close> from lowercase name
  to object, in insertion order.
\<close>

type_synonym person_ref = nat

record person_registry =
  person_objects :: "Person list"
  person_instances :: "(string \<times> person_ref) list"

definition empty_persons :: person_registry where
  "empty_persons = \<lparr>person_objects = [], person_instances = []\<rparr>"

text \<open>\<open>Person(fullname=n)\<close>: the dataclass constructor followed by \<open>__post_init__\<close>.\<close>

definition Person_init :: "string \<Rightarrow> person_registry \<Rightarrow> (error + person_ref) \<times> person_registry" where
  "Person_init n reg =
     (if n = [] then (Inl (ValueError ''fullname can not be empty''), reg)
      else let key = lower (strip n) in
        if key \<in> fst ` set (person_instances reg)
          then (Inl (ValueError (''Person '' @ [CHR 0x27] @ n @ [CHR 0x27]
                                 @ '' already exists. Use get_person() instead.'')), reg)
        else (Inr (length (person_objects reg)),
              \<lparr>person_objects = person_objects reg @ [\<lparr>fullname = n\<rparr>],
               person_instances = person_instances reg
                                    @ [(key, length (person_objects reg))]\<rparr>))"

definition get_person :: "string option \<Rightarrow> person_registry \<Rightarrow> (error + person_ref) \<times> person_registry" where
  "get_person n reg =
     (case n of
        None \<Rightarrow> (Inl (ValueError ''fullname can not be None''), reg)
      | Some s \<Rightarrow>
          (let cleaned = strip s in
           if cleaned = [] then (Inl (ValueError ''fullname can not be empty''), reg)
           else let key = lower cleaned in
             (case map_of (person_instances reg) key of
                Some p \<Rightarrow> (Inr p, reg)
              | None \<Rightarrow> Person_init cleaned reg)))"

definition get_person_count :: "person_registry \<Rightarrow> nat" where
  "get_person_count reg = length (person_instances reg)"

section \<open>module02/movie/movie.py\<close>

datatype genre = ActionAdventure | Comedy | Drama | Horror | Romance
  | ScienceFictionFantasy | Western

text \<open>A \<open>datetime.date\<close>.\<close>

record date =
  year :: nat
  month :: nat
  day :: nat

text \<open>
  A movie object: the class of the object (one subclass of \<open>Movie\<close> per genre) and the
  ten dataclass fields. \<open>rating\<close> and \<open>length\<close> are optional here because the
  constructor accepts \<open>None\<close> for them and \<open>__post_init__\<close> is what checks them.
\<close>

record Movie =
  cls :: genre
  rt_link :: string
  title :: string
  rating :: "rating_ref option"
  directors :: "person_ref list"
  release_date :: "date option"
  streaming_date :: "date option"
  length_m :: "int option"
  company :: "string option"
  score :: "int option"
  count_m :: "int option"

definition post_init :: "Movie \<Rightarrow> error + Movie" where
  "post_init m =
     (if rt_link m = [] then Inl (ValueError ''rt_link must not be empty'')
      else if title m = [] then Inl (ValueError ''title must not be empty'')
      else if rating m = None then Inl (ValueError ''rating must not be None'')
      else (case length_m m of
              None \<Rightarrow> Inr (m\<lparr>length_m := Some 0\<rparr>)
            | Some n \<Rightarrow> if n < 0 then Inr (m\<lparr>length_m := Some 0\<rparr>) else Inr m))"

definition relevant_score :: "Movie \<Rightarrow> bool \<times> int" where
  "relevant_score m =
     (case score m of
        None \<Rightarrow> (False, 0)
      | Some s \<Rightarrow>
          (case count_m m of
             None \<Rightarrow> (False, 0)
           | Some c \<Rightarrow> if c < 100 then (False, 0) else (True, s)))"

text \<open>\<open>Horror.is_scary\<close>: a method of the subclass \<open>Horror\<close> only. The rating is
  dereferenced in the module's registry; a \<open>None\<close> rating cannot be compared
  (\<open>TypeError\<close>).\<close>

definition deref_rating :: "rating_ref \<Rightarrow> error + MovieRating" where
  "deref_rating r = (if r < length (rating_objects ratings)
                     then Inr (rating_objects ratings ! r) else Inl KeyError)"

definition is_scary :: "Movie \<Rightarrow> error + bool" where
  "is_scary m =
     (if cls m \<noteq> Horror then Inl AttributeError
      else
        (case get_rating (Some ''PG'') of
           Inl e \<Rightarrow> Inl e
         | Inr pg \<Rightarrow>
             (case rating m of
                None \<Rightarrow> Inl TypeError
              | Some r \<Rightarrow>
                  (case deref_rating r of
                     Inl e \<Rightarrow> Inl e
                   | Inr a \<Rightarrow> (case deref_rating pg of
                                Inl e \<Rightarrow> Inl e
                              | Inr b \<Rightarrow> rating_gt a b)))))"

text \<open>\<open>_GENRE_TO_CLASS\<close>.\<close>

definition GENRE_TO_CLASS :: "(string \<times> genre) list" where
  "GENRE_TO_CLASS =
     [(''ACTION & ADVENTURE'', ActionAdventure),
      (''COMEDY'', Comedy),
      (''DRAMA'', Drama),
      (''HORROR'', Horror),
      (''ROMANCE'', Romance),
      (''SCIENCE FICTION & FANTASY'', ScienceFictionFantasy),
      (''WESTERN'', Western)]"

text \<open>
  The built-in \<open>int(s)\<close> on a stripped, non-empty string: an optional sign, then
  decimal digits, single underscores allowed between digits, and at most 4300 digits
  (the interpreter's limit on the length of a decimal literal). \<open>None\<close> stands for the
  \<open>ValueError\<close> that \<open>_parse_int\<close> catches.
\<close>

definition digit_val :: "char \<Rightarrow> int option" where
  "digit_val c = map_of (zip ''0123456789'' [0, 1, 2, 3, 4, 5, 6, 7, 8, 9]) c"

fun digits_val :: "bool \<Rightarrow> int \<Rightarrow> string \<Rightarrow> int option" where
  "digits_val after_digit acc [] = (if after_digit then Some acc else None)"
| "digits_val after_digit acc (c # cs) =
     (if c = CHR ''_'' then (if after_digit then digits_val False acc cs else None)
      else (case digit_val c of
              None \<Rightarrow> None
            | Some d \<Rightarrow> digits_val True (10 * acc + d) cs))"

definition max_str_digits :: nat where
  "max_str_digits = 4300"

definition int_literal :: "string \<Rightarrow> int option" where
  "int_literal cs =
     (if max_str_digits < length (filter (\<lambda>c. c \<noteq> CHR ''_'') cs) then None
      else digits_val False 0 cs)"

definition py_int :: "string \<Rightarrow> int option" where
  "py_int s =
     (case s of
        [] \<Rightarrow> None
      | c # cs \<Rightarrow>
          if c = CHR ''-'' then map_option uminus (int_literal cs)
          else if c = CHR ''+'' then int_literal cs
          else int_literal s)"

definition parse_int :: "string option \<Rightarrow> int option" where
  "parse_int v =
     (case v of
        None \<Rightarrow> None
      | Some s \<Rightarrow> (let s' = strip s in if s' = [] then None else py_int s'))"

text \<open>
  \<open>_parse_date\<close>. The library function \<open>date.fromisoformat\<close> is a parameter of the
  model: a function from the trimmed text to a date, or to \<open>None\<close>, which stands for the
  \<open>ValueError\<close> that \<open>_parse_date\<close> catches. Which texts it accepts, besides
  \<open>YYYY-MM-DD\<close>, depends on the version of the library; nothing below depends on it.
\<close>

definition parse_date :: "(string \<Rightarrow> date option) \<Rightarrow> string option \<Rightarrow> date option" where
  "parse_date fromisoformat v =
     (case v of
        None \<Rightarrow> None
      | Some s \<Rightarrow> (let s' = strip s in if s' = [] then None else fromisoformat s'))"

text \<open>The list comprehension of \<open>_parse_directors\<close>: \<open>get_person\<close> on every non-empty
  part, left to right; an exception leaves the registry as it is at that point.\<close>

fun get_persons :: "string list \<Rightarrow> person_registry \<Rightarrow> (error + person_ref list) \<times> person_registry" where
  "get_persons [] reg = (Inr [], reg)"
| "get_persons (n # ns) reg =
     (if n = [] then get_persons ns reg
      else (case get_person (Some n) reg of
              (Inl e, reg') \<Rightarrow> (Inl e, reg')
            | (Inr p, reg') \<Rightarrow>
                (case get_persons ns reg' of
                   (Inl e, reg'') \<Rightarrow> (Inl e, reg'')
                 | (Inr ps, reg'') \<Rightarrow> (Inr (p # ps), reg''))))"

definition parse_directors :: "string option \<Rightarrow> person_registry \<Rightarrow> (error + person_ref list) \<times> person_registry" where
  "parse_directors v reg =
     (case v of
        None \<Rightarrow> (Inr [], reg)
      | Some s \<Rightarrow>
          (let text = strip s in
           if text = [] then (Inr [], reg)
           else get_persons (map strip (split_on CHR '','' text)) reg))"

text \<open>
  A row of \<open>csv.DictReader\<close>: a dictionary from column name to a string, or to \<open>None\<close>
  for a column the line is too short for. \<open>get_or\<close> is \<open>info.get(k) or ""\<close> and
  \<open>get_default\<close> is \<open>info.get(k, "")\<close>.
\<close>

type_synonym row = "string \<rightharpoonup> string option"

definition get_or :: "row \<Rightarrow> string \<Rightarrow> string" where
  "get_or info k = (case info k of Some (Some s) \<Rightarrow> s | _ \<Rightarrow> [])"

definition get_default :: "row \<Rightarrow> string \<Rightarrow> string option" where
  "get_default info k = (case info k of None \<Rightarrow> Some [] | Some v \<Rightarrow> v)"

definition create_movie ::
  "(string \<Rightarrow> date option) \<Rightarrow> row \<Rightarrow> person_registry \<Rightarrow> (error + Movie) \<times> person_registry" where
  "create_movie fromisoformat info reg =
     (let rt = strip (get_or info ''rotten_tomatoes_link'');
          ttl = strip (get_or info ''movie_title'');
          rating_code = strip (get_or info ''content_rating'');
          genre_text = strip (get_or info ''genre'')
      in
      if rt = [] then (Inl (ValueError ''missing rotten_tomatoes_link''), reg)
      else if ttl = [] then (Inl (ValueError ''missing movie_title''), reg)
      else if rating_code = [] then (Inl (ValueError ''missing content_rating''), reg)
      else if genre_text = [] then (Inl (ValueError ''missing genre''), reg)
      else
        (case get_rating (Some rating_code) of
           Inl e \<Rightarrow> (Inl e, reg)
         | Inr r \<Rightarrow>
             (case parse_directors (get_default info ''directors'') reg of
                (Inl e, reg') \<Rightarrow> (Inl e, reg')
              | (Inr ds, reg') \<Rightarrow>
                  (let rel = parse_date fromisoformat (get_default info ''original_release_date'');
                       str = parse_date fromisoformat (get_default info ''streaming_release_date'');
                       len = (case parse_int (get_default info ''runtime'') of
                                None \<Rightarrow> 0
                              | Some n \<Rightarrow> n);
                       comp = (let c = strip (get_or info ''production_company'')
                               in if c = [] then None else Some c);
                       sc = parse_int (get_default info ''audience_rating'');
                       cnt = parse_int (get_default info ''audience_count'')
                   in
                   (case map_of GENRE_TO_CLASS (upper genre_text) of
                      None \<Rightarrow> (Inl (ValueError (''unknown genre: '' @ genre_text)), reg')
                    | Some g \<Rightarrow>
                        (post_init \<lparr>cls = g, rt_link = rt, title = ttl, rating = Some r,
                                    directors = ds, release_date = rel,
                                    streaming_date = str, length_m = Some len,
                                    company = comp, score = sc, count_m = cnt\<rparr>,
                         reg'))))))"

section \<open>eval_02.py\<close>

text \<open>
  The menu functions print their result; the model returns what is printed as a value.
  Reading and writing files and the menu loop are outside the model.
\<close>

subsection \<open>Menu option 4: highest score\<close>

datatype highest_result = NoRelevantScore | Highest int "string list"

fun highest_loop :: "Movie list \<Rightarrow> int \<Rightarrow> Movie list \<Rightarrow> int \<times> Movie list" where
  "highest_loop [] max_score best_movies = (max_score, best_movies)"
| "highest_loop (movie # movies) max_score best_movies =
     (case relevant_score movie of
        (is_relevant, score_value) \<Rightarrow>
          if \<not> is_relevant then highest_loop movies max_score best_movies
          else if score_value > max_score then highest_loop movies score_value [movie]
          else if score_value = max_score
            then highest_loop movies max_score (best_movies @ [movie])
          else highest_loop movies max_score best_movies)"

definition menu_print_highest_score_movies :: "Movie list \<Rightarrow> highest_result" where
  "menu_print_highest_score_movies movies =
     (case highest_loop movies (- 1) [] of
        (max_score, best_movies) \<Rightarrow>
          if best_movies = [] then NoRelevantScore
          else Highest max_score (map title best_movies))"

subsection \<open>Menu option 8: score list\<close>

text \<open>The dictionary \<open>{i: 0 for i in range(0, 101)}\<close>.\<close>

definition initial_counts :: "int \<rightharpoonup> int" where
  "initial_counts = (\<lambda>i. if 0 \<le> i \<and> i \<le> 100 then Some 0 else None)"

fun count_scores :: "Movie list \<Rightarrow> (int \<rightharpoonup> int) \<Rightarrow> error + (int \<rightharpoonup> int)" where
  "count_scores [] score_counts = Inr score_counts"
| "count_scores (movie # movies) score_counts =
     (case score movie of
        None \<Rightarrow> count_scores movies score_counts
      | Some s \<Rightarrow>
          if 0 \<le> s \<and> s \<le> 100
          then (case score_counts s of
                  None \<Rightarrow> Inl KeyError
                | Some n \<Rightarrow> count_scores movies (score_counts(s \<mapsto> n + 1)))
          else count_scores movies score_counts)"

fun read_counts :: "(int \<rightharpoonup> int) \<Rightarrow> int list \<Rightarrow> error + (int \<times> int) list" where
  "read_counts score_counts [] = Inr []"
| "read_counts score_counts (v # vs) =
     (case score_counts v of
        None \<Rightarrow> Inl KeyError
      | Some n \<Rightarrow> (case read_counts score_counts vs of
                    Inl e \<Rightarrow> Inl e
                  | Inr out \<Rightarrow> Inr ((v, n) # out)))"

definition menu_print_score_list :: "Movie list \<Rightarrow> error + (int \<times> int) list" where
  "menu_print_score_list movies =
     (case count_scores movies initial_counts of
        Inl e \<Rightarrow> Inl e
      | Inr score_counts \<Rightarrow> read_counts score_counts [0..100])"

subsection \<open>Menu option 9: export\<close>

text \<open>
  Either the message that there is nothing to export (the function returns before it
  opens the file), or the movies whose rows are written, in the order written.
  \<open>list.sort(key=...)\<close> is a stable sort, as \<open>sort_key\<close> is; strings compare
  lexicographically by character code.
\<close>

datatype export_result = NothingToExport | Exported "Movie list"

definition menu_export_movies_without_relevant_score :: "Movie list \<Rightarrow> export_result" where
  "menu_export_movies_without_relevant_score movies =
     (let movies_without_relevant = filter (\<lambda>movie. \<not> fst (relevant_score movie)) movies
      in if movies_without_relevant = [] then NothingToExport
         else Exported (sort_key title movies_without_relevant))"

section \<open>Notions used in the statements\<close>

text \<open>The names in a \<open>directors\<close> field: the non-empty trimmed parts between commas.\<close>

definition director_names :: "string option \<Rightarrow> string list" where
  "director_names v =
     (case v of None \<Rightarrow> []
      | Some s \<Rightarrow> filter (\<lambda>n. n \<noteq> []) (map strip (split_on CHR '','' (strip s))))"

text \<open>The trimmed text of a column of a row, or \<open>None\<close> when the column is missing,
  holds \<open>None\<close> or is empty after trimming.\<close>

definition trimmed :: "string option option \<Rightarrow> string option" where
  "trimmed v = (case v of
                  Some (Some s) \<Rightarrow> if strip s = [] then None else Some (strip s)
                | _ \<Rightarrow> None)"

text \<open>The invariant of a movie record (the checks of \<open>__post_init__\<close>).\<close>

definition movie_invariant :: "Movie \<Rightarrow> bool" where
  "movie_invariant m \<longleftrightarrow>
     rt_link m \<noteq> [] \<and> title m \<noteq> [] \<and> rating m \<noteq> None
     \<and> (case length_m m of None \<Rightarrow> False | Some n \<Rightarrow> 0 \<le> n)"

text \<open>Sample records for the examples: a drama with a given score and 500 votes, and
  a comedy with a given title, score and vote count.\<close>

definition scored :: "int option \<Rightarrow> Movie" where
  "scored s = \<lparr>cls = Drama, rt_link = ''m/x'', title = ''X'', rating = Some 1,
     directors = [], release_date = None, streaming_date = None, length_m = Some 90,
     company = None, score = s, count_m = Some 500\<rparr>"

definition titled :: "string \<Rightarrow> int option \<Rightarrow> int option \<Rightarrow> Movie" where
  "titled t s c = \<lparr>cls = Comedy, rt_link = ''m/x'', title = t, rating = Some 1,
     directors = [], release_date = None, streaming_date = None, length_m = Some 90,
     company = None, score = s, count_m = c\<rparr>"

section \<open>Properties\<close>

subsection \<open>Strings\<close>

lemma strip_strip [simp]: "strip (strip s) = strip s"
  unfolding strip_def
  by (metis (no_types, lifting) ext Nil_is_rev_conv dropWhile_eq_Nil_conv
    dropWhile_eq_self_iff dropWhile_last hd_dropWhile last_rev rev_swap)

lemma strip_Nil [simp]: "strip [] = []"
  by (simp add: strip_def)


lemma upper_Nil_iff [simp]: "upper s = [] \<longleftrightarrow> s = []"
  by (cases s) (simp_all add: upper_def upper_char_def)

subsection \<open>The rating registry\<close>

text \<open>
  Importing rating.py creates the six ratings without error; afterwards no constructor
  call succeeds, so the registry never changes again.
\<close>

lemma ratings_eq:
  "ratings = \<lparr>rating_objects =
       [\<lparr>code = ''NR'', description = ''Not rated''\<rparr>,
        \<lparr>code = ''G'', description = ''All ages''\<rparr>,
        \<lparr>code = ''PG'', description = ''Parental guidance advised''\<rparr>,
        \<lparr>code = ''PG-13'', description = ''Parental guidance strongly advised''\<rparr>,
        \<lparr>code = ''R'', description = ''Under 17, parental guidance advised''\<rparr>,
        \<lparr>code = ''NC17'', description = ''For adults only''\<rparr>],
     rating_instances =
       [(''NR'', 0), (''G'', 1), (''PG'', 2), (''PG-13'', 3), (''R'', 4), (''NC17'', 5)]\<rparr>"
  by code_simp

lemma bootstrap_ok: "create_predefined_ratings empty_ratings = Inr ratings"
  by code_simp

lemma rating_instances_lookup:
  "map_of (rating_instances ratings) x = None \<longleftrightarrow> x \<notin> set order"
  by (simp add: ratings_eq order_def)

lemma registry_closed: "\<exists>e. MovieRating_init c d ratings = Inl e"
  by (auto simp: MovieRating_init_def Let_def ratings_eq order_def)

lemma get_rating_known:
  "upper (strip s) \<in> set order \<Longrightarrow>
     \<exists>r. get_rating (Some s) = Inr r \<and> r < length (rating_objects ratings)
        \<and> code (rating_objects ratings ! r) = upper (strip s)
        \<and> map_of (rating_instances ratings) (upper (strip s)) = Some r"
  by (auto simp: get_rating_def get_rating_in_def ratings_eq order_def)

lemma get_rating_unknown:
  "upper (strip s) \<notin> set order \<Longrightarrow>
     get_rating (Some s) = Inl (ValueError (''Unknown rating code: '' @ upper (strip s)))"
  using rating_instances_lookup [of "upper (strip s)"]
  by (simp add: get_rating_def get_rating_in_def)

lemma get_rating_stripped: "get_rating (Some (strip s)) = get_rating (Some s)"
  by (simp add: get_rating_def get_rating_in_def)

lemma order_nonempty: "x \<in> set order \<Longrightarrow> x \<noteq> []"
  by (auto simp: order_def)

text \<open>
  Claim C5. For a string whose trimmed, uppercased form is one of the six codes,
  \<open>get_rating\<close> returns one object of the registry, the one with that code, and
  returns the same object for every other string with the same trimmed, uppercased form
  (\<open>get_rating\<close> reads the registry and does not change it, so this holds on every
  call). For any other string it raises the \<open>ValueError\<close> "Unknown rating code".
\<close>

theorem get_rating_flyweight:
  "(upper (strip s) \<in> set order \<longrightarrow>
      (\<exists>r. get_rating (Some s) = Inr r
         \<and> r < length (rating_objects ratings)
         \<and> code (rating_objects ratings ! r) = upper (strip s)
         \<and> (\<forall>t. upper (strip t) = upper (strip s) \<longrightarrow> get_rating (Some t) = Inr r)))
   \<and> (upper (strip s) \<notin> set order \<longrightarrow>
      get_rating (Some s) = Inl (ValueError (''Unknown rating code: '' @ upper (strip s))))"
proof (intro conjI impI)
  assume k: "upper (strip s) \<in> set order"
  from get_rating_known [OF k] obtain r where
    r: "get_rating (Some s) = Inr r" "r < length (rating_objects ratings)"
       "code (rating_objects ratings ! r) = upper (strip s)" by blast
  have "get_rating (Some t) = Inr r" if "upper (strip t) = upper (strip s)" for t
    using r(1) that by (simp add: get_rating_def get_rating_in_def)
  with r show "\<exists>r. get_rating (Some s) = Inr r
         \<and> r < length (rating_objects ratings)
         \<and> code (rating_objects ratings ! r) = upper (strip s)
         \<and> (\<forall>t. upper (strip t) = upper (strip s) \<longrightarrow> get_rating (Some t) = Inr r)"
    by blast
next
  assume "upper (strip s) \<notin> set order"
  then show "get_rating (Some s) = Inl (ValueError (''Unknown rating code: '' @ upper (strip s)))"
    by (rule get_rating_unknown)
qed

text \<open>
  The variants \<open>" pg-13 "\<close> and \<open>"Pg-13"\<close> give the same object, number 3, whose code
  is \<open>PG-13\<close>; \<open>"PG13"\<close> is not a code.
\<close>

lemma ev1: "upper (strip '' pg-13 '') = ''PG-13''" by code_simp

lemma ev2: "upper (strip ''Pg-13'') = ''PG-13''" by code_simp

lemma ev3: "upper (strip ''PG13'') = ''PG13''" by code_simp

theorem get_rating_flyweight_witness:
  "upper (strip '' pg-13 '') \<in> set order
   \<and> upper (strip ''Pg-13'') = upper (strip '' pg-13 '')
   \<and> get_rating (Some '' pg-13 '') = Inr 3
   \<and> get_rating (Some ''Pg-13'') = Inr 3
   \<and> code (rating_objects ratings ! 3) = ''PG-13''
   \<and> upper (strip ''PG13'') \<notin> set order
   \<and> get_rating (Some ''PG13'') = Inl (ValueError ''Unknown rating code: PG13'')"
proof -
  have a: "upper (strip '' pg-13 '') \<in> set order" by (simp add: ev1 order_def)
  have b: "upper (strip ''Pg-13'') = upper (strip '' pg-13 '')" by (simp add: ev1 ev2)
  have c: "upper (strip ''PG13'') \<notin> set order" by (simp add: ev3 order_def)
  from get_rating_flyweight [of "'' pg-13 ''"] a obtain r where
    r: "get_rating (Some '' pg-13 '') = Inr r"
       "code (rating_objects ratings ! r) = upper (strip '' pg-13 '')"
       "\<forall>t. upper (strip t) = upper (strip '' pg-13 '') \<longrightarrow> get_rating (Some t) = Inr r"
    by blast
  have r3: "get_rating (Some '' pg-13 '') = Inr 3" by code_simp
  with r(1) have "r = 3" by simp
  moreover from r(3) b have "get_rating (Some ''Pg-13'') = Inr r" by blast
  moreover from get_rating_flyweight [of "''PG13''"] c
  have "get_rating (Some ''PG13'') = Inl (ValueError (''Unknown rating code: '' @ upper (strip ''PG13'')))"
    by blast
  ultimately show ?thesis using a b c r by (simp add: ev1 ev3)
qed

lemma index_of_order:
  "index_of order x = (if x = ''NR'' then Some 0 else if x = ''G'' then Some 1
     else if x = ''PG'' then Some 2 else if x = ''PG-13'' then Some 3
     else if x = ''R'' then Some 4 else if x = ''NC17'' then Some 5 else None)"
  by (simp add: order_def)

lemma get_rating_PG: "get_rating (Some ''PG'') = Inr 2"
  by code_simp

lemma upper_codes:
  "upper ''NR'' = ''NR''" "upper ''G'' = ''G''" "upper ''PG'' = ''PG''"
  "upper ''PG-13'' = ''PG-13''" "upper ''R'' = ''R''" "upper ''NC17'' = ''NC17''"
  by code_simp+

text \<open>
  Claim C6. For a Horror record whose rating is an object of the registry,
  \<open>is_scary\<close> returns whether the position of the rating's code in the fixed order
  NR, G, PG, PG-13, R, NC17 is strictly after that of PG: true exactly for PG-13, R and
  NC17, false exactly for NR, G and PG.
\<close>

theorem is_scary_spec:
  "cls m = Horror \<and> rating m = Some r \<and> r < length (rating_objects ratings) \<longrightarrow>
     (\<exists>i j. index_of order (code (rating_objects ratings ! r)) = Some i
           \<and> index_of order ''PG'' = Some j
           \<and> is_scary m = Inr (j < i))
     \<and> is_scary m = Inr (code (rating_objects ratings ! r) \<in> {''PG-13'', ''R'', ''NC17''})
     \<and> (is_scary m = Inr False \<longleftrightarrow> code (rating_objects ratings ! r) \<in> {''NR'', ''G'', ''PG''})"
proof
  assume h: "cls m = Horror \<and> rating m = Some r \<and> r < length (rating_objects ratings)"
  then have "r < 6" by (simp add: ratings_eq)
  then consider "r = 0" | "r = 1" | "r = 2" | "r = 3" | "r = 4" | "r = 5" by linarith
  then show "(\<exists>i j. index_of order (code (rating_objects ratings ! r)) = Some i
           \<and> index_of order ''PG'' = Some j
           \<and> is_scary m = Inr (j < i))
     \<and> is_scary m = Inr (code (rating_objects ratings ! r) \<in> {''PG-13'', ''R'', ''NC17''})
     \<and> (is_scary m = Inr False \<longleftrightarrow> code (rating_objects ratings ! r) \<in> {''NR'', ''G'', ''PG''})"
    using h
    by cases (simp_all add: is_scary_def get_rating_PG deref_rating_def rating_gt_def
        rating_lt_def sort_index_def index_of_order ratings_eq upper_codes)
qed

text \<open>
  Horror records rated PG, PG-13 and R: not scary, scary, scary.
\<close>

theorem is_scary_spec_witness:
  "is_scary \<lparr>cls = Horror, rt_link = ''m/x'', title = ''X'', rating = Some 2,
     directors = [], release_date = None, streaming_date = None, length_m = Some 90,
     company = None, score = None, count_m = None\<rparr> = Inr False
   \<and> code (rating_objects ratings ! 2) = ''PG''
   \<and> is_scary \<lparr>cls = Horror, rt_link = ''m/x'', title = ''X'', rating = Some 3,
     directors = [], release_date = None, streaming_date = None, length_m = Some 90,
     company = None, score = None, count_m = None\<rparr> = Inr True
   \<and> code (rating_objects ratings ! 3) = ''PG-13''
   \<and> is_scary \<lparr>cls = Horror, rt_link = ''m/x'', title = ''X'', rating = Some 4,
     directors = [], release_date = None, streaming_date = None, length_m = Some 90,
     company = None, score = None, count_m = None\<rparr> = Inr True
   \<and> code (rating_objects ratings ! 4) = ''R''"
proof -
  let ?m = "\<lambda>r. \<lparr>cls = Horror, rt_link = ''m/x'', title = ''X'', rating = Some r,
     directors = [], release_date = None, streaming_date = None, length_m = Some 90,
     company = None, score = None, count_m = None\<rparr>"
  have c: "code (rating_objects ratings ! 2) = ''PG''"
          "code (rating_objects ratings ! 3) = ''PG-13''"
          "code (rating_objects ratings ! 4) = ''R''"
    by (simp_all add: ratings_eq)
  have l: "(2::nat) < length (rating_objects ratings)" "(3::nat) < length (rating_objects ratings)"
          "(4::nat) < length (rating_objects ratings)"
    by (simp_all add: ratings_eq)
  from is_scary_spec [of "?m 2" 2] l c have "is_scary (?m 2) = Inr False" by simp
  moreover from is_scary_spec [of "?m 3" 3] l c have "is_scary (?m 3) = Inr True" by simp
  moreover from is_scary_spec [of "?m 4" 4] l c have "is_scary (?m 4) = Inr True" by simp
  ultimately show ?thesis using c by simp
qed

subsection \<open>The person registry\<close>

lemma get_person_empty:
  "strip s = [] \<Longrightarrow> get_person (Some s) reg = (Inl (ValueError ''fullname can not be empty''), reg)"
  by (simp add: get_person_def)

lemma get_person_old:
  "strip s \<noteq> [] \<Longrightarrow> map_of (person_instances reg) (lower (strip s)) = Some p \<Longrightarrow>
     get_person (Some s) reg = (Inr p, reg)"
  by (simp add: get_person_def)

lemma get_person_new:
  "strip s \<noteq> [] \<Longrightarrow> map_of (person_instances reg) (lower (strip s)) = None \<Longrightarrow>
     get_person (Some s) reg =
       (Inr (length (person_objects reg)),
        \<lparr>person_objects = person_objects reg @ [\<lparr>fullname = strip s\<rparr>],
         person_instances = person_instances reg
                              @ [(lower (strip s), length (person_objects reg))]\<rparr>)"
  using map_of_eq_None_iff [of "person_instances reg" "lower (strip s)"]
  by (simp add: get_person_def Person_init_def Let_def)

lemma get_person_grows:
  "get_person n reg = (res, reg') \<Longrightarrow>
     \<exists>os is. person_objects reg' = person_objects reg @ os
           \<and> person_instances reg' = person_instances reg @ is"
  by (cases n; cases "map_of (person_instances reg) (lower (strip (the n)))")
     (auto simp: get_person_def Person_init_def Let_def split: if_splits)

lemma get_person_stored:
  "strip s \<noteq> [] \<Longrightarrow> get_person (Some s) reg = (res, reg') \<Longrightarrow>
     \<exists>p. res = Inr p \<and> map_of (person_instances reg') (lower (strip s)) = Some p"
  by (cases "map_of (person_instances reg) (lower (strip s))")
     (auto simp: get_person_new get_person_old map_add_def)



subsection \<open>Parsing the directors\<close>

lemma get_persons_ok:
  "\<forall>n \<in> set ns. strip n = n \<Longrightarrow> \<exists>ps reg'. get_persons ns reg = (Inr ps, reg')"
proof (induction ns arbitrary: reg)
  case Nil
  show ?case by simp
next
  case (Cons n ns)
  show ?case
  proof (cases "n = []")
    case True
    with Cons show ?thesis by simp
  next
    case False
    with Cons.prems have s: "strip n \<noteq> []" by simp
    obtain res reg1 where g: "get_person (Some n) reg = (res, reg1)" by fastforce
    from get_person_stored [OF s g] obtain p where p: "res = Inr p" by blast
    from Cons.IH [of reg1] Cons.prems obtain ps reg2 where "get_persons ns reg1 = (Inr ps, reg2)"
      by auto
    with False g p show ?thesis by simp
  qed
qed

lemma get_persons_grows:
  "get_persons ns reg = (res, reg') \<Longrightarrow>
     \<exists>os is. person_objects reg' = person_objects reg @ os
           \<and> person_instances reg' = person_instances reg @ is"
proof (induction ns arbitrary: reg res reg')
  case Nil
  then show ?case by simp
next
  case (Cons n ns)
  show ?case
  proof (cases "n = []")
    case True
    with Cons show ?thesis by simp
  next
    case False
    obtain r1 reg1 where g: "get_person (Some n) reg = (r1, reg1)" by fastforce
    from get_person_grows [OF g] obtain os1 is1 where
      a: "person_objects reg1 = person_objects reg @ os1"
         "person_instances reg1 = person_instances reg @ is1" by blast
    show ?thesis
    proof (cases r1)
      case (Inl e)
      with Cons.prems False g have "reg' = reg1" by simp
      with a show ?thesis by blast
    next
      case (Inr p)
      obtain r2 reg2 where g2: "get_persons ns reg1 = (r2, reg2)" by fastforce
      from Cons.IH [OF g2] obtain os2 is2 where
        b: "person_objects reg2 = person_objects reg1 @ os2"
           "person_instances reg2 = person_instances reg1 @ is2" by blast
      from Cons.prems False g Inr g2 have "reg' = reg2" by (cases r2) auto
      with a b show ?thesis by simp
    qed
  qed
qed

lemma map_of_append_keep:
  "map_of xs k = Some v \<Longrightarrow> map_of (xs @ ys) k = Some v"
  by (simp add: map_add_Some_iff)

lemma get_persons_stored:
  "\<forall>n \<in> set ns. strip n = n \<Longrightarrow> get_persons ns reg = (res, reg') \<Longrightarrow>
     n \<in> set ns \<Longrightarrow> n \<noteq> [] \<Longrightarrow> map_of (person_instances reg') (lower n) \<noteq> None"
proof (induction ns arbitrary: reg res reg')
  case Nil
  then show ?case by simp
next
  case (Cons x xs)
  show ?case
  proof (cases "x = []")
    case True
    with Cons.prems have "get_persons xs reg = (res, reg')" "n \<in> set xs" by auto
    with Cons.IH [of reg res reg'] Cons.prems show ?thesis by simp
  next
    case False
    with Cons.prems have s: "strip x \<noteq> []" by simp
    obtain r1 reg1 where g: "get_person (Some x) reg = (r1, reg1)" by fastforce
    from get_person_stored [OF s g] obtain p where
      p: "r1 = Inr p" "map_of (person_instances reg1) (lower (strip x)) = Some p" by blast
    obtain r2 reg2 where g2: "get_persons xs reg1 = (r2, reg2)" by fastforce
    from Cons.prems False g p g2 have eq: "reg' = reg2" by (cases r2) auto
    show ?thesis
    proof (cases "n = x")
      case True
      from get_persons_grows [OF g2] obtain is2 where
        "person_instances reg2 = person_instances reg1 @ is2" by blast
      with p(2) Cons.prems(1) True eq show ?thesis
        by (simp add: map_of_append_keep)
    next
      case False
      with Cons.prems have "n \<in> set xs" by simp
      with Cons.IH [OF _ g2] Cons.prems eq show ?thesis by simp
    qed
  qed
qed

lemma parse_directors_ok: "\<exists>ds reg'. parse_directors v reg = (Inr ds, reg')"
proof (cases v)
  case None
  then show ?thesis by (simp add: parse_directors_def)
next
  case (Some s)
  have "\<forall>n \<in> set (map strip (split_on CHR '','' (strip s))). strip n = n" by auto
  from get_persons_ok [OF this, of reg] Some show ?thesis
    by (auto simp: parse_directors_def Let_def)
qed

lemma parse_directors_grows:
  "parse_directors v reg = (res, reg') \<Longrightarrow>
     \<exists>os is. person_objects reg' = person_objects reg @ os
           \<and> person_instances reg' = person_instances reg @ is"
  by (cases v) (auto simp: parse_directors_def Let_def split: if_splits dest: get_persons_grows)

lemma parse_directors_stored:
  assumes "parse_directors v reg = (res, reg')" and "n \<in> set (director_names v)"
  shows "map_of (person_instances reg') (lower n) \<noteq> None"
proof (cases v)
  case None
  with assms show ?thesis by (simp add: director_names_def)
next
  case (Some s)
  from assms(2) Some have n: "n \<in> set (map strip (split_on CHR '','' (strip s)))" "n \<noteq> []"
    by (auto simp: director_names_def)
  have ne: "strip s \<noteq> []"
  proof
    assume "strip s = []"
    with n show False by simp
  qed
  have st: "\<forall>n \<in> set (map strip (split_on CHR '','' (strip s))). strip n = n" by auto
  from assms(1) Some ne have "get_persons (map strip (split_on CHR '','' (strip s))) reg = (res, reg')"
    by (simp add: parse_directors_def Let_def)
  from get_persons_stored [OF st this n] show ?thesis .
qed

subsection \<open>The factory\<close>

lemma genre_nonempty: "map_of GENRE_TO_CLASS x = Some g \<Longrightarrow> x \<noteq> []"
  by (auto simp: GENRE_TO_CLASS_def split: if_splits)

lemma genre_lookup: "map_of GENRE_TO_CLASS x = None \<longleftrightarrow> x \<notin> fst ` set GENRE_TO_CLASS"
  by (rule map_of_eq_None_iff)

lemma create_movie_missing:
  "strip (get_or info ''rotten_tomatoes_link'') = [] \<Longrightarrow>
     create_movie fromisoformat info reg = (Inl (ValueError ''missing rotten_tomatoes_link''), reg)"
  "strip (get_or info ''rotten_tomatoes_link'') \<noteq> [] \<Longrightarrow>
   strip (get_or info ''movie_title'') = [] \<Longrightarrow>
     create_movie fromisoformat info reg = (Inl (ValueError ''missing movie_title''), reg)"
  "strip (get_or info ''rotten_tomatoes_link'') \<noteq> [] \<Longrightarrow>
   strip (get_or info ''movie_title'') \<noteq> [] \<Longrightarrow>
   strip (get_or info ''content_rating'') = [] \<Longrightarrow>
     create_movie fromisoformat info reg = (Inl (ValueError ''missing content_rating''), reg)"
  "strip (get_or info ''rotten_tomatoes_link'') \<noteq> [] \<Longrightarrow>
   strip (get_or info ''movie_title'') \<noteq> [] \<Longrightarrow>
   strip (get_or info ''content_rating'') \<noteq> [] \<Longrightarrow>
   strip (get_or info ''genre'') = [] \<Longrightarrow>
     create_movie fromisoformat info reg = (Inl (ValueError ''missing genre''), reg)"
  by (simp_all add: create_movie_def Let_def)

lemma create_movie_unknown_rating:
  assumes "strip (get_or info ''rotten_tomatoes_link'') \<noteq> []"
    and "strip (get_or info ''movie_title'') \<noteq> []"
    and "strip (get_or info ''content_rating'') \<noteq> []"
    and "strip (get_or info ''genre'') \<noteq> []"
    and "upper (strip (get_or info ''content_rating'')) \<notin> set order"
  shows "create_movie fromisoformat info reg =
     (Inl (ValueError (''Unknown rating code: '' @ upper (strip (get_or info ''content_rating'')))), reg)"
  using assms get_rating_unknown [OF assms(5)]
  by (simp add: create_movie_def Let_def get_rating_stripped)

lemma create_movie_unknown_genre:
  assumes "strip (get_or info ''rotten_tomatoes_link'') \<noteq> []"
    and "strip (get_or info ''movie_title'') \<noteq> []"
    and "strip (get_or info ''genre'') \<noteq> []"
    and "upper (strip (get_or info ''content_rating'')) \<in> set order"
    and "map_of GENRE_TO_CLASS (upper (strip (get_or info ''genre''))) = None"
  shows "create_movie fromisoformat info reg =
     (Inl (ValueError (''unknown genre: '' @ strip (get_or info ''genre''))),
      snd (parse_directors (get_default info ''directors'') reg))"
proof -
  from get_rating_known [OF assms(4)] obtain r where
    r: "get_rating (Some (get_or info ''content_rating'')) = Inr r" by blast
  obtain ds reg' where d: "parse_directors (get_default info ''directors'') reg = (Inr ds, reg')"
    using parse_directors_ok by blast
  from order_nonempty [OF assms(4)] have "strip (get_or info ''content_rating'') \<noteq> []" by simp
  with assms r d show ?thesis
    by (simp add: create_movie_def Let_def get_rating_stripped)
qed

lemma create_movie_ok:
  assumes "strip (get_or info ''rotten_tomatoes_link'') \<noteq> []"
    and "strip (get_or info ''movie_title'') \<noteq> []"
    and "upper (strip (get_or info ''content_rating'')) \<in> set order"
    and "map_of GENRE_TO_CLASS (upper (strip (get_or info ''genre''))) = Some g"
  shows "\<exists>r ds reg'.
     get_rating (Some (get_or info ''content_rating'')) = Inr r
     \<and> parse_directors (get_default info ''directors'') reg = (Inr ds, reg')
     \<and> create_movie fromisoformat info reg =
       (Inr \<lparr>cls = g,
             rt_link = strip (get_or info ''rotten_tomatoes_link''),
             title = strip (get_or info ''movie_title''),
             rating = Some r,
             directors = ds,
             release_date = parse_date fromisoformat (get_default info ''original_release_date''),
             streaming_date = parse_date fromisoformat (get_default info ''streaming_release_date''),
             length_m = Some (case parse_int (get_default info ''runtime'') of
                                None \<Rightarrow> 0 | Some n \<Rightarrow> if n < 0 then 0 else n),
             company = (if strip (get_or info ''production_company'') = [] then None
                        else Some (strip (get_or info ''production_company''))),
             score = parse_int (get_default info ''audience_rating''),
             count_m = parse_int (get_default info ''audience_count'')\<rparr>,
        reg')"
proof -
  from get_rating_known [OF assms(3)] obtain r where
    r: "get_rating (Some (get_or info ''content_rating'')) = Inr r" by blast
  obtain ds reg' where d: "parse_directors (get_default info ''directors'') reg = (Inr ds, reg')"
    using parse_directors_ok by blast
  from order_nonempty [OF assms(3)] have rc: "strip (get_or info ''content_rating'') \<noteq> []" by simp
  from genre_nonempty [OF assms(4)] have gt: "strip (get_or info ''genre'') \<noteq> []" by simp
  have "create_movie fromisoformat info reg =
       (Inr \<lparr>cls = g,
             rt_link = strip (get_or info ''rotten_tomatoes_link''),
             title = strip (get_or info ''movie_title''),
             rating = Some r,
             directors = ds,
             release_date = parse_date fromisoformat (get_default info ''original_release_date''),
             streaming_date = parse_date fromisoformat (get_default info ''streaming_release_date''),
             length_m = Some (case parse_int (get_default info ''runtime'') of
                                None \<Rightarrow> 0 | Some n \<Rightarrow> if n < 0 then 0 else n),
             company = (if strip (get_or info ''production_company'') = [] then None
                        else Some (strip (get_or info ''production_company''))),
             score = parse_int (get_default info ''audience_rating''),
             count_m = parse_int (get_default info ''audience_count'')\<rparr>,
        reg')"
    using assms(1,2,4) rc gt r d
    by (simp add: create_movie_def Let_def get_rating_stripped post_init_def split: option.splits)
  with r d show ?thesis by blast
qed

lemma create_movie_Inr:
  assumes c: "create_movie fromisoformat info reg = (Inr m, reg')"
  shows "\<exists>g r ds.
     strip (get_or info ''rotten_tomatoes_link'') \<noteq> []
     \<and> strip (get_or info ''movie_title'') \<noteq> []
     \<and> upper (strip (get_or info ''content_rating'')) \<in> set order
     \<and> map_of GENRE_TO_CLASS (upper (strip (get_or info ''genre''))) = Some g
     \<and> get_rating (Some (get_or info ''content_rating'')) = Inr r
     \<and> parse_directors (get_default info ''directors'') reg = (Inr ds, reg')
     \<and> m = \<lparr>cls = g,
             rt_link = strip (get_or info ''rotten_tomatoes_link''),
             title = strip (get_or info ''movie_title''),
             rating = Some r,
             directors = ds,
             release_date = parse_date fromisoformat (get_default info ''original_release_date''),
             streaming_date = parse_date fromisoformat (get_default info ''streaming_release_date''),
             length_m = Some (case parse_int (get_default info ''runtime'') of
                                None \<Rightarrow> 0 | Some n \<Rightarrow> if n < 0 then 0 else n),
             company = (if strip (get_or info ''production_company'') = [] then None
                        else Some (strip (get_or info ''production_company''))),
             score = parse_int (get_default info ''audience_rating''),
             count_m = parse_int (get_default info ''audience_count'')\<rparr>"
proof -
  have l: "strip (get_or info ''rotten_tomatoes_link'') \<noteq> []"
    using c create_movie_missing(1) [where info = info and reg = reg and fromisoformat = fromisoformat] by auto
  have t: "strip (get_or info ''movie_title'') \<noteq> []"
    using c l create_movie_missing(2) [where info = info and reg = reg and fromisoformat = fromisoformat] by auto
  have rc: "strip (get_or info ''content_rating'') \<noteq> []"
    using c l t create_movie_missing(3) [where info = info and reg = reg and fromisoformat = fromisoformat] by auto
  have gt: "strip (get_or info ''genre'') \<noteq> []"
    using c l t rc create_movie_missing(4) [where info = info and reg = reg and fromisoformat = fromisoformat] by auto
  have k: "upper (strip (get_or info ''content_rating'')) \<in> set order"
    using c create_movie_unknown_rating [OF l t rc gt, where reg = reg and fromisoformat = fromisoformat] by auto
  obtain g where g: "map_of GENRE_TO_CLASS (upper (strip (get_or info ''genre''))) = Some g"
    using c create_movie_unknown_genre [OF l t gt k, where reg = reg and fromisoformat = fromisoformat] by (cases "map_of GENRE_TO_CLASS (upper (strip (get_or info ''genre'')))") auto
  from create_movie_ok [OF l t k g, where reg = reg and fromisoformat = fromisoformat] c l t k g show ?thesis by auto
qed

lemma create_movie_invariant:
  "create_movie fromisoformat info reg = (Inr m, reg') \<Longrightarrow> movie_invariant m"
  by (drule create_movie_Inr) (auto simp: movie_invariant_def split: option.splits)

lemma post_init_invariant: "post_init m = Inr m' \<Longrightarrow> movie_invariant m'"
  by (auto simp: post_init_def movie_invariant_def split: if_splits option.splits)

lemma parse_int_absent:
  "parse_int None = None" "parse_int (Some []) = None"
  by (simp_all add: parse_int_def)

lemma parse_int_examples:
  "parse_int (Some ''85'') = Some 85" "parse_int (Some ''150'') = Some 150"
  "parse_int (Some ''50'') = Some 50"
  by code_simp+

lemma not_relevant_iff:
  "\<not> fst (relevant_score m) \<longleftrightarrow>
     score m = None \<or> count_m m = None \<or> (\<exists>c. count_m m = Some c \<and> c < 100)"
  by (auto simp: relevant_score_def split: option.splits)

text \<open>
  Claim C1. \<open>relevant_score\<close> returns \<open>(True, s)\<close> exactly when the score is \<open>s\<close> and
  the count is present and at least 100, and \<open>(False, 0)\<close> exactly when the score is
  absent, the count is absent or the count is below 100. A record that \<open>create_movie\<close>
  builds from a row with \<open>audience_rating\<close> 85 and \<open>audience_count\<close> 150 has
  \<open>(True, 85)\<close>; one from a row with \<open>audience_count\<close> 50, or with \<open>audience_rating\<close>
  missing, \<open>None\<close> or empty, has \<open>(False, 0)\<close>.
\<close>

theorem relevant_score_spec:
  "(relevant_score m = (True, s) \<longleftrightarrow>
      score m = Some s \<and> (\<exists>c. count_m m = Some c \<and> 100 \<le> c))
   \<and> (relevant_score m = (False, 0) \<longleftrightarrow>
      score m = None \<or> count_m m = None \<or> (\<exists>c. count_m m = Some c \<and> c < 100))
   \<and> (\<forall>m' reg'. create_movie fromisoformat info reg = (Inr m', reg') \<longrightarrow>
        (info ''audience_rating'' = Some (Some ''85'')
           \<and> info ''audience_count'' = Some (Some ''150'') \<longrightarrow>
             relevant_score m' = (True, 85))
        \<and> (info ''audience_count'' = Some (Some ''50'') \<longrightarrow>
             relevant_score m' = (False, 0))
        \<and> (info ''audience_rating'' = None \<or> info ''audience_rating'' = Some None
             \<or> info ''audience_rating'' = Some (Some []) \<longrightarrow>
             relevant_score m' = (False, 0)))"
proof (intro conjI allI impI)
  show "relevant_score m = (True, s) \<longleftrightarrow>
      score m = Some s \<and> (\<exists>c. count_m m = Some c \<and> 100 \<le> c)"
    by (auto simp: relevant_score_def split: option.splits)
  show "relevant_score m = (False, 0) \<longleftrightarrow>
      score m = None \<or> count_m m = None \<or> (\<exists>c. count_m m = Some c \<and> c < 100)"
    by (auto simp: relevant_score_def split: option.splits)
next
  fix m' reg'
  assume c: "create_movie fromisoformat info reg = (Inr m', reg')"
  from create_movie_Inr [OF c] have
    f: "score m' = parse_int (get_default info ''audience_rating'')"
       "count_m m' = parse_int (get_default info ''audience_count'')"
    by auto
  {
    assume "info ''audience_rating'' = Some (Some ''85'')
           \<and> info ''audience_count'' = Some (Some ''150'')"
    with f show "relevant_score m' = (True, 85)"
      by (simp add: relevant_score_def get_default_def parse_int_examples)
  }
  {
    assume "info ''audience_count'' = Some (Some ''50'')"
    with f show "relevant_score m' = (False, 0)"
      by (simp add: relevant_score_def get_default_def parse_int_examples split: option.splits)
  }
  {
    assume "info ''audience_rating'' = None \<or> info ''audience_rating'' = Some None
             \<or> info ''audience_rating'' = Some (Some [])"
    with f show "relevant_score m' = (False, 0)"
      by (auto simp: relevant_score_def get_default_def parse_int_absent)
  }
qed

text \<open>
  A row with \<open>audience_rating\<close> 85 and \<open>audience_count\<close> 150, for every behaviour of
  the date parser (the row has no dates).
\<close>

theorem relevant_score_spec_witness:
  "(\<forall>fromisoformat. create_movie fromisoformat
     (map_of [(''rotten_tomatoes_link'', Some ''m/inception''), (''movie_title'', Some ''Inception''),
              (''content_rating'', Some ''PG-13''), (''genre'', Some ''DRAMA''),
              (''audience_rating'', Some ''85''), (''audience_count'', Some ''150'')])
     empty_persons
   = (Inr \<lparr>cls = Drama, rt_link = ''m/inception'', title = ''Inception'', rating = Some 3,
           directors = [], release_date = None, streaming_date = None, length_m = Some 0,
           company = None, score = Some 85, count_m = Some 150\<rparr>, empty_persons))
   \<and> relevant_score \<lparr>cls = Drama, rt_link = ''m/inception'', title = ''Inception'',
           rating = Some 3, directors = [], release_date = None, streaming_date = None,
           length_m = Some 0, company = None, score = Some 85, count_m = Some 150\<rparr>
       = (True, 85)"
proof -
  let ?row = "map_of [(''rotten_tomatoes_link'', Some ''m/inception''), (''movie_title'', Some ''Inception''),
              (''content_rating'', Some ''PG-13''), (''genre'', Some ''DRAMA''),
              (''audience_rating'', Some ''85''), (''audience_count'', Some ''150'')]"
  let ?m = "\<lparr>cls = Drama, rt_link = ''m/inception'', title = ''Inception'', rating = Some 3,
           directors = [], release_date = None, streaming_date = None, length_m = Some 0,
           company = None, score = Some 85, count_m = Some 150\<rparr>"
  have c: "create_movie f ?row empty_persons = (Inr ?m, empty_persons)" for f
    by code_simp
  have r: "?row ''audience_rating'' = Some (Some ''85'') \<and> ?row ''audience_count'' = Some (Some ''150'')"
    by simp
  from relevant_score_spec [where m = ?m and s = 85 and info = ?row and reg = empty_persons
      and fromisoformat = "\<lambda>t. None"] c r
  have "relevant_score ?m = (True, 85)" by blast
  with c show ?thesis by blast
qed

lemma parse_date_trimmed:
  "parse_date fromisoformat (get_default info k)
     = (case trimmed (info k) of None \<Rightarrow> None | Some t \<Rightarrow> fromisoformat t)"
  by (simp add: parse_date_def get_default_def trimmed_def Let_def split: option.splits)

lemma parse_int_trimmed:
  "parse_int (get_default info k)
     = (case trimmed (info k) of None \<Rightarrow> None | Some t \<Rightarrow> py_int t)"
  by (simp add: parse_int_def get_default_def trimmed_def Let_def split: option.splits)

lemma company_trimmed:
  "(if strip (get_or info k) = [] then None else Some (strip (get_or info k)))
     = trimmed (info k)"
  by (simp add: get_or_def trimmed_def split: option.splits)

lemma digits_val_malformed:
  "\<exists>c \<in> set cs. c \<notin> set ''0123456789_'' \<Longrightarrow> digits_val b acc cs = None"
proof (induction cs arbitrary: b acc)
  case Nil
  then show ?case by simp
next
  case (Cons c cs)
  show ?case
  proof (cases "c \<in> set ''0123456789_''")
    case False
    then have "c \<noteq> CHR ''_''" "digit_val c = None" by (auto simp: digit_val_def)
    then show ?thesis by simp
  next
    case True
    with Cons.prems have "\<exists>c \<in> set cs. c \<notin> set ''0123456789_''" by auto
    from Cons.IH [OF this] show ?thesis by (simp split: option.splits)
  qed
qed

lemma int_literal_malformed:
  "\<exists>c \<in> set cs. c \<notin> set ''0123456789_'' \<Longrightarrow> int_literal cs = None"
  by (simp only: int_literal_def digits_val_malformed if_cancel)

lemma py_int_malformed:
  assumes "\<exists>c \<in> set t. c \<notin> set ''0123456789_+-''"
  shows "py_int t = None"
proof (cases t)
  case Nil
  then show ?thesis by (simp add: py_int_def)
next
  case (Cons c cs)
  from assms have all: "\<exists>c \<in> set t. c \<notin> set ''0123456789_''" by auto
  from all have 1: "int_literal t = None" by (rule int_literal_malformed)
  have 2: "int_literal cs = None" if "c = CHR ''-'' \<or> c = CHR ''+''"
  proof -
    from assms Cons that have "\<exists>c \<in> set cs. c \<notin> set ''0123456789_+-''" by auto
    then have "\<exists>c \<in> set cs. c \<notin> set ''0123456789_''" by auto
    then show ?thesis by (rule int_literal_malformed)
  qed
  from Cons 1 2 show ?thesis by (auto simp: py_int_def)
qed

text \<open>
  Claim C2. Every error of \<open>create_movie\<close> is one of: a required field empty after
  trimming, an unknown rating code, an unknown genre. When the link and the title are not
  empty and the rating code and the genre are known, \<open>create_movie\<close> returns a record
  for every content of the other columns. In that record every optional field whose
  column is missing, holds \<open>None\<close> or is empty after trimming is absent (\<open>None\<close>, and 0
  for the runtime); otherwise a date is what \<open>date.fromisoformat\<close> returns for the trimmed
  text and absent when it raises, a number is what \<open>int\<close> returns for the trimmed text and
  absent (0 for the runtime, also when negative) when it raises, and the company is the
  trimmed text. \<open>int\<close> raises on every trimmed text that holds a character other than a
  digit, an underscore or a sign.
\<close>

theorem create_movie_errors:
  "(\<forall>e reg'. create_movie fromisoformat info reg = (Inl e, reg') \<longrightarrow>
      (e = ValueError ''missing rotten_tomatoes_link''
         \<and> strip (get_or info ''rotten_tomatoes_link'') = [])
      \<or> (e = ValueError ''missing movie_title'' \<and> strip (get_or info ''movie_title'') = [])
      \<or> (e = ValueError ''missing content_rating''
         \<and> strip (get_or info ''content_rating'') = [])
      \<or> (e = ValueError ''missing genre'' \<and> strip (get_or info ''genre'') = [])
      \<or> (e = ValueError (''Unknown rating code: '' @ upper (strip (get_or info ''content_rating'')))
         \<and> upper (strip (get_or info ''content_rating'')) \<notin> set order)
      \<or> (e = ValueError (''unknown genre: '' @ strip (get_or info ''genre''))
         \<and> upper (strip (get_or info ''genre'')) \<notin> fst ` set GENRE_TO_CLASS))
   \<and> (strip (get_or info ''rotten_tomatoes_link'') \<noteq> []
      \<and> strip (get_or info ''movie_title'') \<noteq> []
      \<and> upper (strip (get_or info ''content_rating'')) \<in> set order
      \<and> upper (strip (get_or info ''genre'')) \<in> fst ` set GENRE_TO_CLASS \<longrightarrow>
      (\<exists>m reg'. create_movie fromisoformat info reg = (Inr m, reg')
         \<and> release_date m = (case trimmed (info ''original_release_date'') of
                                None \<Rightarrow> None | Some t \<Rightarrow> fromisoformat t)
         \<and> streaming_date m = (case trimmed (info ''streaming_release_date'') of
                                  None \<Rightarrow> None | Some t \<Rightarrow> fromisoformat t)
         \<and> length_m m = Some (case trimmed (info ''runtime'') of
                                None \<Rightarrow> 0
                              | Some t \<Rightarrow> (case py_int t of
                                            None \<Rightarrow> 0
                                          | Some n \<Rightarrow> if n < 0 then 0 else n))
         \<and> company m = trimmed (info ''production_company'')
         \<and> score m = (case trimmed (info ''audience_rating'') of
                         None \<Rightarrow> None | Some t \<Rightarrow> py_int t)
         \<and> count_m m = (case trimmed (info ''audience_count'') of
                           None \<Rightarrow> None | Some t \<Rightarrow> py_int t)))
   \<and> (\<forall>s. (\<exists>c \<in> set (strip s). c \<notin> set ''0123456789_+-'') \<longrightarrow>
          py_int (strip s) = None \<and> parse_int (Some s) = None)"
proof (intro conjI allI impI)
  fix e reg'
  assume c: "create_movie fromisoformat info reg = (Inl e, reg')"
  let ?l = "strip (get_or info ''rotten_tomatoes_link'')"
  let ?t = "strip (get_or info ''movie_title'')"
  let ?r = "strip (get_or info ''content_rating'')"
  let ?g = "strip (get_or info ''genre'')"
  consider "?l = []" | "?l \<noteq> []" "?t = []" | "?l \<noteq> []" "?t \<noteq> []" "?r = []"
    | "?l \<noteq> []" "?t \<noteq> []" "?r \<noteq> []" "?g = []"
    | "?l \<noteq> []" "?t \<noteq> []" "?r \<noteq> []" "?g \<noteq> []" "upper ?r \<notin> set order"
    | "?l \<noteq> []" "?t \<noteq> []" "?g \<noteq> []" "upper ?r \<in> set order"
      "map_of GENRE_TO_CLASS (upper ?g) = None"
    | g where "?l \<noteq> []" "?t \<noteq> []" "upper ?r \<in> set order"
      "map_of GENRE_TO_CLASS (upper ?g) = Some g"
    by (cases "map_of GENRE_TO_CLASS (upper ?g)") auto
  then show "(e = ValueError ''missing rotten_tomatoes_link'' \<and> ?l = [])
      \<or> (e = ValueError ''missing movie_title'' \<and> ?t = [])
      \<or> (e = ValueError ''missing content_rating'' \<and> ?r = [])
      \<or> (e = ValueError ''missing genre'' \<and> ?g = [])
      \<or> (e = ValueError (''Unknown rating code: '' @ upper ?r) \<and> upper ?r \<notin> set order)
      \<or> (e = ValueError (''unknown genre: '' @ ?g) \<and> upper ?g \<notin> fst ` set GENRE_TO_CLASS)"
  proof cases
    case 1
    with c create_movie_missing(1) [where info = info and reg = reg and fromisoformat = fromisoformat] show ?thesis by simp
  next
    case 2
    with c create_movie_missing(2) [where info = info and reg = reg and fromisoformat = fromisoformat] show ?thesis by simp
  next
    case 3
    with c create_movie_missing(3) [where info = info and reg = reg and fromisoformat = fromisoformat] show ?thesis by simp
  next
    case 4
    with c create_movie_missing(4) [where info = info and reg = reg and fromisoformat = fromisoformat] show ?thesis by simp
  next
    case 5
    with c create_movie_unknown_rating [where info = info and reg = reg and fromisoformat = fromisoformat] show ?thesis by simp
  next
    case 6
    with c create_movie_unknown_genre [where info = info and reg = reg and fromisoformat = fromisoformat] genre_lookup [of "upper ?g"]
    show ?thesis by simp
  next
    case 7
    with c create_movie_ok [where info = info and g = g and reg = reg
        and fromisoformat = fromisoformat]
    show ?thesis by auto
  qed
next
  assume h: "strip (get_or info ''rotten_tomatoes_link'') \<noteq> []
      \<and> strip (get_or info ''movie_title'') \<noteq> []
      \<and> upper (strip (get_or info ''content_rating'')) \<in> set order
      \<and> upper (strip (get_or info ''genre'')) \<in> fst ` set GENRE_TO_CLASS"
  then obtain g where g: "map_of GENRE_TO_CLASS (upper (strip (get_or info ''genre''))) = Some g"
    using genre_lookup [of "upper (strip (get_or info ''genre''))"] by auto
  from h g create_movie_ok [where info = info and g = g and reg = reg
      and fromisoformat = fromisoformat]
  obtain m reg' where m: "create_movie fromisoformat info reg = (Inr m, reg')"
    "release_date m = parse_date fromisoformat (get_default info ''original_release_date'')"
    "streaming_date m = parse_date fromisoformat (get_default info ''streaming_release_date'')"
    "length_m m = Some (case parse_int (get_default info ''runtime'') of
                          None \<Rightarrow> 0 | Some n \<Rightarrow> if n < 0 then 0 else n)"
    "company m = (if strip (get_or info ''production_company'') = [] then None
                  else Some (strip (get_or info ''production_company'')))"
    "score m = parse_int (get_default info ''audience_rating'')"
    "count_m m = parse_int (get_default info ''audience_count'')"
    by (elim exE conjE) (auto simp del: split_paired_Ex)
  have len: "length_m m = Some (case trimmed (info ''runtime'') of
                                None \<Rightarrow> 0
                              | Some t \<Rightarrow> (case py_int t of
                                            None \<Rightarrow> 0
                                          | Some n \<Rightarrow> if n < 0 then 0 else n))"
    unfolding m(4) parse_int_trimmed by (simp split: option.splits)
  from m(1) m(2,3,5,6,7) len
  show "\<exists>m reg'. create_movie fromisoformat info reg = (Inr m, reg')
         \<and> release_date m = (case trimmed (info ''original_release_date'') of
                                None \<Rightarrow> None | Some t \<Rightarrow> fromisoformat t)
         \<and> streaming_date m = (case trimmed (info ''streaming_release_date'') of
                                  None \<Rightarrow> None | Some t \<Rightarrow> fromisoformat t)
         \<and> length_m m = Some (case trimmed (info ''runtime'') of
                                None \<Rightarrow> 0
                              | Some t \<Rightarrow> (case py_int t of
                                            None \<Rightarrow> 0
                                          | Some n \<Rightarrow> if n < 0 then 0 else n))
         \<and> company m = trimmed (info ''production_company'')
         \<and> score m = (case trimmed (info ''audience_rating'') of
                         None \<Rightarrow> None | Some t \<Rightarrow> py_int t)
         \<and> count_m m = (case trimmed (info ''audience_count'') of
                           None \<Rightarrow> None | Some t \<Rightarrow> py_int t)"
    by (intro exI [of _ m] exI [of _ reg'])
       (simp only: parse_date_trimmed parse_int_trimmed company_trimmed simp_thms)
next
  fix s
  assume b: "\<exists>c \<in> set (strip s). c \<notin> set ''0123456789_+-''"
  then show "py_int (strip s) = None" by (rule py_int_malformed)
  then show "parse_int (Some s) = None" by (simp add: parse_int_def Let_def)
qed

text \<open>
  With a date parser that reads \<open>2020-01-15\<close> and raises on any other text: a row whose
  release date is that text between blanks, and whose other optional columns are
  malformed, empty or \<open>None\<close>, gives a record with that date and every other optional
  field absent; a row with the rating code \<open>PG13\<close> gives the unknown rating code error.
\<close>

theorem create_movie_errors_witness:
  "create_movie [''2020-01-15'' \<mapsto> \<lparr>year = 2020, month = 1, day = 15\<rparr>]
     (map_of [(''rotten_tomatoes_link'', Some ''m/x''), (''movie_title'', Some ''X''),
              (''content_rating'', Some '' r ''), (''genre'', Some ''western''),
              (''directors'', Some '' , ,''),
              (''original_release_date'', Some '' 2020-01-15 ''),
              (''streaming_release_date'', Some ''yesterday''), (''runtime'', Some ''12.5''),
              (''production_company'', None), (''audience_rating'', Some ''n/a'')])
     empty_persons
   = (Inr \<lparr>cls = Western, rt_link = ''m/x'', title = ''X'', rating = Some 4,
           directors = [], release_date = Some \<lparr>year = 2020, month = 1, day = 15\<rparr>,
           streaming_date = None, length_m = Some 0,
           company = None, score = None, count_m = None\<rparr>, empty_persons)
   \<and> parse_int (Some ''12.5'') = None
   \<and> fst (create_movie [''2020-01-15'' \<mapsto> \<lparr>year = 2020, month = 1, day = 15\<rparr>]
        (map_of [(''rotten_tomatoes_link'', Some ''m/x''), (''movie_title'', Some ''X''),
                 (''content_rating'', Some ''PG13''), (''genre'', Some ''western'')])
        empty_persons)
     = Inl (ValueError ''Unknown rating code: PG13'')"
proof -
  let ?f = "[''2020-01-15'' \<mapsto> \<lparr>year = 2020, month = 1, day = 15\<rparr>]"
  let ?row = "map_of [(''rotten_tomatoes_link'', Some ''m/x''), (''movie_title'', Some ''X''),
              (''content_rating'', Some '' r ''), (''genre'', Some ''western''),
              (''directors'', Some '' , ,''),
              (''original_release_date'', Some '' 2020-01-15 ''),
              (''streaming_release_date'', Some ''yesterday''), (''runtime'', Some ''12.5''),
              (''production_company'', None), (''audience_rating'', Some ''n/a'')]"
  let ?bad = "map_of [(''rotten_tomatoes_link'', Some ''m/x''), (''movie_title'', Some ''X''),
                 (''content_rating'', Some ''PG13''), (''genre'', Some ''western'')]"
  have h: "strip (get_or ?row ''rotten_tomatoes_link'') \<noteq> []
      \<and> strip (get_or ?row ''movie_title'') \<noteq> []
      \<and> upper (strip (get_or ?row ''content_rating'')) \<in> set order
      \<and> upper (strip (get_or ?row ''genre'')) \<in> fst ` set GENRE_TO_CLASS"
    by code_simp
  have d: "\<exists>c \<in> set (strip ''12.5''). c \<notin> set ''0123456789_+-''"
    by code_simp
  from create_movie_errors [where info = ?row and reg = empty_persons and fromisoformat = ?f] h
  obtain m reg' where m: "create_movie ?f ?row empty_persons = (Inr m, reg')" by blast
  from create_movie_errors [where info = ?row and reg = empty_persons and fromisoformat = ?f] d
  have p: "parse_int (Some ''12.5'') = None" by blast
  have c: "create_movie ?f ?row empty_persons
     = (Inr \<lparr>cls = Western, rt_link = ''m/x'', title = ''X'', rating = Some 4,
           directors = [], release_date = Some \<lparr>year = 2020, month = 1, day = 15\<rparr>,
           streaming_date = None, length_m = Some 0,
           company = None, score = None, count_m = None\<rparr>, empty_persons)"
    by code_simp
  have b: "create_movie ?f ?bad empty_persons
             = (Inl (ValueError ''Unknown rating code: PG13''), empty_persons)"
    by code_simp
  from m c b p show ?thesis by simp
qed

lemma export_subset:
  "menu_export_movies_without_relevant_score ms = Exported out \<Longrightarrow> set out \<subseteq> set ms"
  by (auto simp: menu_export_movies_without_relevant_score_def Let_def split: if_splits)

text \<open>
  Claim C7. A record that \<open>__post_init__\<close> accepts has a non-empty \<open>rt_link\<close>, a
  non-empty \<open>title\<close>, a rating and a length that is at least 0. Construction fails on an
  empty \<open>rt_link\<close>, an empty \<open>title\<close> or a \<open>None\<close> rating; otherwise it succeeds and
  changes the record only in that a missing or negative length becomes 0. Every record
  that \<open>create_movie\<close> returns satisfies the invariant, and the records that the export
  selects are records of the collection, unchanged.
\<close>

theorem movie_invariant_established:
  "(\<forall>m'. post_init m = Inr m' \<longrightarrow>
       rt_link m' \<noteq> [] \<and> title m' \<noteq> [] \<and> rating m' \<noteq> None
       \<and> (\<exists>n. length_m m' = Some n \<and> 0 \<le> n))
   \<and> (rt_link m = [] \<longrightarrow> post_init m = Inl (ValueError ''rt_link must not be empty''))
   \<and> (rt_link m \<noteq> [] \<and> title m = [] \<longrightarrow>
        post_init m = Inl (ValueError ''title must not be empty''))
   \<and> (rt_link m \<noteq> [] \<and> title m \<noteq> [] \<and> rating m = None \<longrightarrow>
        post_init m = Inl (ValueError ''rating must not be None''))
   \<and> (rt_link m \<noteq> [] \<and> title m \<noteq> [] \<and> rating m \<noteq> None \<longrightarrow>
        post_init m = Inr (m\<lparr>length_m := Some (case length_m m of None \<Rightarrow> 0
                                   | Some n \<Rightarrow> if n < 0 then 0 else n)\<rparr>))
   \<and> (\<forall>m' reg'. create_movie fromisoformat info reg = (Inr m', reg') \<longrightarrow>
        rt_link m' \<noteq> [] \<and> title m' \<noteq> [] \<and> rating m' \<noteq> None
        \<and> (\<exists>n. length_m m' = Some n \<and> 0 \<le> n))
   \<and> (\<forall>out. (\<forall>x \<in> set ms. movie_invariant x)
          \<and> menu_export_movies_without_relevant_score ms = Exported out \<longrightarrow>
        (\<forall>x \<in> set out. x \<in> set ms \<and> movie_invariant x))"
proof -
  have a: "\<forall>m'. post_init m = Inr m' \<longrightarrow>
       rt_link m' \<noteq> [] \<and> title m' \<noteq> [] \<and> rating m' \<noteq> None
       \<and> (\<exists>n. length_m m' = Some n \<and> 0 \<le> n)"
    using post_init_invariant [of m]
    by (auto simp: movie_invariant_def split: option.splits)
  have b: "rt_link m = [] \<longrightarrow> post_init m = Inl (ValueError ''rt_link must not be empty'')"
    by (simp add: post_init_def)
  have c: "rt_link m \<noteq> [] \<and> title m = [] \<longrightarrow>
        post_init m = Inl (ValueError ''title must not be empty'')"
    by (simp add: post_init_def)
  have d: "rt_link m \<noteq> [] \<and> title m \<noteq> [] \<and> rating m = None \<longrightarrow>
        post_init m = Inl (ValueError ''rating must not be None'')"
    by (simp add: post_init_def)
  have e: "rt_link m \<noteq> [] \<and> title m \<noteq> [] \<and> rating m \<noteq> None \<longrightarrow>
        post_init m = Inr (m\<lparr>length_m := Some (case length_m m of None \<Rightarrow> 0
                                   | Some n \<Rightarrow> if n < 0 then 0 else n)\<rparr>)"
    by (auto simp: post_init_def split: option.splits)
  have f: "\<forall>m' reg'. create_movie fromisoformat info reg = (Inr m', reg') \<longrightarrow>
        rt_link m' \<noteq> [] \<and> title m' \<noteq> [] \<and> rating m' \<noteq> None
        \<and> (\<exists>n. length_m m' = Some n \<and> 0 \<le> n)"
    using create_movie_invariant [where info = info and reg = reg and fromisoformat = fromisoformat]
    by (auto simp: movie_invariant_def split: option.splits)
  have g: "\<forall>out. (\<forall>x \<in> set ms. movie_invariant x)
          \<and> menu_export_movies_without_relevant_score ms = Exported out \<longrightarrow>
        (\<forall>x \<in> set out. x \<in> set ms \<and> movie_invariant x)"
    using export_subset [of ms] by auto
  show ?thesis
    apply (rule conjI, rule a)
    apply (rule conjI, rule b)
    apply (rule conjI, rule c)
    apply (rule conjI, rule d)
    apply (rule conjI, rule e)
    apply (rule conjI, rule f)
    apply (rule g)
    done
qed

text \<open>
  A length of -7 and a missing length become 0; an empty title is rejected.
\<close>

theorem movie_invariant_established_witness:
  "post_init \<lparr>cls = Drama, rt_link = ''m/x'', title = ''X'', rating = Some 1,
       directors = [], release_date = None, streaming_date = None, length_m = Some (- 7),
       company = None, score = None, count_m = None\<rparr>
     = Inr \<lparr>cls = Drama, rt_link = ''m/x'', title = ''X'', rating = Some 1,
       directors = [], release_date = None, streaming_date = None, length_m = Some 0,
       company = None, score = None, count_m = None\<rparr>
   \<and> post_init \<lparr>cls = Drama, rt_link = ''m/x'', title = ''X'', rating = Some 1,
       directors = [], release_date = None, streaming_date = None, length_m = None,
       company = None, score = None, count_m = None\<rparr>
     = Inr \<lparr>cls = Drama, rt_link = ''m/x'', title = ''X'', rating = Some 1,
       directors = [], release_date = None, streaming_date = None, length_m = Some 0,
       company = None, score = None, count_m = None\<rparr>
   \<and> post_init \<lparr>cls = Drama, rt_link = ''m/x'', title = [], rating = Some 1,
       directors = [], release_date = None, streaming_date = None, length_m = Some 90,
       company = None, score = None, count_m = None\<rparr>
     = Inl (ValueError ''title must not be empty'')"
proof -
  let ?m = "\<lambda>t l. \<lparr>cls = Drama, rt_link = ''m/x'', title = t, rating = Some (1::nat),
       directors = [], release_date = None, streaming_date = None, length_m = l,
       company = None, score = None, count_m = None\<rparr>"
  from movie_invariant_established [of "?m ''X'' (Some (- 7))"]
  have 1: "post_init (?m ''X'' (Some (- 7))) = Inr (?m ''X'' (Some 0))" by simp
  from movie_invariant_established [of "?m ''X'' None"]
  have 2: "post_init (?m ''X'' None) = Inr (?m ''X'' (Some 0))" by simp
  from movie_invariant_established [of "?m [] (Some 90)"]
  have 3: "post_init (?m [] (Some 90)) = Inl (ValueError ''title must not be empty'')" by simp
  from 1 2 3 show ?thesis by simp
qed

text \<open>
  Claim C10. When the link, the title and the rating code of a row are valid and
  its genre is not empty but unknown, \<open>create_movie\<close> raises the unknown genre error
  and leaves the registry as \<open>_parse_directors\<close> left it: the old entries are kept, every
  name of the directors field is registered, and the count has grown if one of the names
  was new.
\<close>

theorem create_movie_not_atomic:
  "strip (get_or info ''rotten_tomatoes_link'') \<noteq> []
   \<and> strip (get_or info ''movie_title'') \<noteq> []
   \<and> upper (strip (get_or info ''content_rating'')) \<in> set order
   \<and> strip (get_or info ''genre'') \<noteq> []
   \<and> upper (strip (get_or info ''genre'')) \<notin> fst ` set GENRE_TO_CLASS \<longrightarrow>
     (\<exists>reg'. create_movie fromisoformat info reg
               = (Inl (ValueError (''unknown genre: '' @ strip (get_or info ''genre''))), reg')
        \<and> reg' = snd (parse_directors (get_default info ''directors'') reg)
        \<and> (\<exists>os is. person_objects reg' = person_objects reg @ os
                  \<and> person_instances reg' = person_instances reg @ is)
        \<and> (\<forall>n \<in> set (director_names (get_default info ''directors'')).
              map_of (person_instances reg') (lower n) \<noteq> None)
        \<and> get_person_count reg \<le> get_person_count reg'
        \<and> ((\<exists>n \<in> set (director_names (get_default info ''directors'')).
               map_of (person_instances reg) (lower n) = None) \<longrightarrow>
             get_person_count reg < get_person_count reg'))"
proof
  assume h: "strip (get_or info ''rotten_tomatoes_link'') \<noteq> []
   \<and> strip (get_or info ''movie_title'') \<noteq> []
   \<and> upper (strip (get_or info ''content_rating'')) \<in> set order
   \<and> strip (get_or info ''genre'') \<noteq> []
   \<and> upper (strip (get_or info ''genre'')) \<notin> fst ` set GENRE_TO_CLASS"
  let ?d = "get_default info ''directors''"
  obtain res reg' where p: "parse_directors ?d reg = (res, reg')" by fastforce
  from h genre_lookup [of "upper (strip (get_or info ''genre''))"]
  have "map_of GENRE_TO_CLASS (upper (strip (get_or info ''genre''))) = None" by simp
  with h create_movie_unknown_genre [where info = info and reg = reg and fromisoformat = fromisoformat] p
  have c: "create_movie fromisoformat info reg
       = (Inl (ValueError (''unknown genre: '' @ strip (get_or info ''genre''))), reg')"
    by simp
  from parse_directors_grows [OF p] obtain os "is" where
    g: "person_objects reg' = person_objects reg @ os"
       "person_instances reg' = person_instances reg @ is" by blast
  have s: "\<forall>n \<in> set (director_names ?d). map_of (person_instances reg') (lower n) \<noteq> None"
    using parse_directors_stored [OF p] by blast
  have le: "get_person_count reg \<le> get_person_count reg'"
    using g by (simp add: get_person_count_def)
  have lt: "get_person_count reg < get_person_count reg'"
    if "\<exists>n \<in> set (director_names ?d). map_of (person_instances reg) (lower n) = None"
  proof -
    from that obtain n where n: "n \<in> set (director_names ?d)"
      "map_of (person_instances reg) (lower n) = None" by blast
    from s n have "map_of (person_instances reg') (lower n) \<noteq> None" by blast
    with n(2) g(2) have "is \<noteq> []" by auto
    with g(2) show ?thesis by (simp add: get_person_count_def)
  qed
  from c p g s le lt
  show "\<exists>reg'. create_movie fromisoformat info reg
               = (Inl (ValueError (''unknown genre: '' @ strip (get_or info ''genre''))), reg')
        \<and> reg' = snd (parse_directors (get_default info ''directors'') reg)
        \<and> (\<exists>os is. person_objects reg' = person_objects reg @ os
                  \<and> person_instances reg' = person_instances reg @ is)
        \<and> (\<forall>n \<in> set (director_names (get_default info ''directors'')).
              map_of (person_instances reg') (lower n) \<noteq> None)
        \<and> get_person_count reg \<le> get_person_count reg'
        \<and> ((\<exists>n \<in> set (director_names (get_default info ''directors'')).
               map_of (person_instances reg) (lower n) = None) \<longrightarrow>
             get_person_count reg < get_person_count reg')"
    by (intro exI [of _ reg']) simp
qed

text \<open>
  The row with genre \<open>HORROR-ish\<close> and two directors, on the empty registry and for
  every behaviour of the date parser: no record, and a count of 2.
\<close>

theorem create_movie_not_atomic_witness:
  "(\<forall>fromisoformat. create_movie fromisoformat
     (map_of [(''rotten_tomatoes_link'', Some ''m/x''), (''movie_title'', Some ''X''),
              (''content_rating'', Some ''R''), (''genre'', Some ''HORROR-ish''),
              (''directors'', Some ''Matt Groening, Hugo Claus'')])
     empty_persons
   = (Inl (ValueError ''unknown genre: HORROR-ish''),
      \<lparr>person_objects = [\<lparr>fullname = ''Matt Groening''\<rparr>, \<lparr>fullname = ''Hugo Claus''\<rparr>],
       person_instances = [(''matt groening'', 0), (''hugo claus'', 1)]\<rparr>))
   \<and> get_person_count empty_persons = 0
   \<and> get_person_count
        \<lparr>person_objects = [\<lparr>fullname = ''Matt Groening''\<rparr>, \<lparr>fullname = ''Hugo Claus''\<rparr>],
         person_instances = [(''matt groening'', 0), (''hugo claus'', 1)]\<rparr> = 2"
proof -
  let ?row = "map_of [(''rotten_tomatoes_link'', Some ''m/x''), (''movie_title'', Some ''X''),
              (''content_rating'', Some ''R''), (''genre'', Some ''HORROR-ish''),
              (''directors'', Some ''Matt Groening, Hugo Claus'')]"
  let ?reg = "\<lparr>person_objects = [\<lparr>fullname = ''Matt Groening''\<rparr>, \<lparr>fullname = ''Hugo Claus''\<rparr>],
       person_instances = [(''matt groening'', 0), (''hugo claus'', 1)]\<rparr>"
  have h: "strip (get_or ?row ''rotten_tomatoes_link'') \<noteq> []
   \<and> strip (get_or ?row ''movie_title'') \<noteq> []
   \<and> upper (strip (get_or ?row ''content_rating'')) \<in> set order
   \<and> strip (get_or ?row ''genre'') \<noteq> []
   \<and> upper (strip (get_or ?row ''genre'')) \<notin> fst ` set GENRE_TO_CLASS"
    by code_simp
  have g: "strip (get_or ?row ''genre'') = ''HORROR-ish''" by code_simp
  have p: "snd (parse_directors (get_default ?row ''directors'') empty_persons) = ?reg"
    by code_simp
  have "create_movie f ?row empty_persons
          = (Inl (ValueError ''unknown genre: HORROR-ish''), ?reg)" for f
  proof -
    from create_movie_not_atomic [where info = ?row and reg = empty_persons
        and fromisoformat = f] h
    have "create_movie f ?row empty_persons
       = (Inl (ValueError (''unknown genre: '' @ strip (get_or ?row ''genre''))),
          snd (parse_directors (get_default ?row ''directors'') empty_persons))"
      by blast
    then show ?thesis unfolding g p by simp
  qed
  then show ?thesis by (simp add: get_person_count_def empty_persons_def)
qed

subsection \<open>Menu option 4: highest score\<close>

text \<open>
  The loop returns the maximum of the sentinel -1 and the relevant scores, with the
  records that attain it. So the function is right whenever no relevant score is below
  -1.
\<close>

lemma fold_max_ge: "(mx::int) \<le> fold max xs mx"
proof (induction xs arbitrary: mx)
  case Nil show ?case by simp
next
  case (Cons x xs)
  have "mx \<le> max x mx" by simp
  also have "\<dots> \<le> fold max xs (max x mx)" by (rule Cons.IH)
  finally show ?case by simp
qed

lemma highest_loop_eq:
  "highest_loop ms mx best =
     (let rel = filter (\<lambda>m. fst (relevant_score m)) ms;
          M = fold max (map (\<lambda>m. snd (relevant_score m)) rel) mx
      in (M, (if M = mx then best else []) @ filter (\<lambda>m. snd (relevant_score m) = M) rel))"
proof (induction ms arbitrary: mx best)
  case Nil
  show ?case by simp
next
  case (Cons m ms)
  obtain r s where rs: "relevant_score m = (r, s)" by (cases "relevant_score m")
  let ?scs = "map (\<lambda>m. snd (relevant_score m)) (filter (\<lambda>m. fst (relevant_score m)) ms)"
  show ?case
  proof (cases r)
    case False
    with rs Cons.IH [of mx best] show ?thesis by simp
  next
    case True
    consider "s > mx" | "s = mx" | "s < mx" by linarith
    then show ?thesis
    proof cases
      case 1
      then have mx: "max s mx = s" by simp
      from fold_max_ge [of s ?scs] 1 have "fold max ?scs s \<noteq> mx" by linarith
      with rs True 1 mx Cons.IH [of s "[m]"] show ?thesis
        by (simp add: Let_def)
    next
      case 2
      with rs True Cons.IH [of mx "best @ [m]"] show ?thesis
        by (simp add: Let_def)
    next
      case 3
      then have mx: "max s mx = mx" by simp
      from fold_max_ge [of mx ?scs] 3 have "s \<noteq> fold max ?scs mx" by linarith
      with rs True 3 mx Cons.IH [of mx best] show ?thesis
        by (simp add: Let_def)
    qed
  qed
qed

lemma fold_max_insert: "fold max xs (mx::int) = Max (insert mx (set xs))"
proof (induction xs arbitrary: mx)
  case Nil
  show ?case by simp
next
  case (Cons x xs)
  have "Max (insert (max x mx) (set xs)) = Max (insert mx (insert x (set xs)))"
    by (cases "set xs = {}") (simp_all add: max.assoc max.commute)
  with Cons.IH [of "max x mx"] show ?case by simp
qed

lemma fold_max_Max:
  "xs \<noteq> [] \<Longrightarrow> \<forall>x \<in> set xs. (mx::int) \<le> x \<Longrightarrow> fold max xs mx = Max (set xs)"
proof -
  assume ne: "xs \<noteq> []" and le: "\<forall>x \<in> set xs. mx \<le> x"
  from ne have s: "set xs \<noteq> {}" by simp
  then have "Max (set xs) \<in> set xs" by simp
  with le have "mx \<le> Max (set xs)" by blast
  with s show ?thesis by (simp add: fold_max_insert max.absorb2)
qed

lemma highest_score_in_range:
  assumes "\<forall>m \<in> set ms. fst (relevant_score m) \<longrightarrow> - 1 \<le> snd (relevant_score m)"
  shows "menu_print_highest_score_movies ms =
     (let rel = filter (\<lambda>m. fst (relevant_score m)) ms in
      if rel = [] then NoRelevantScore
      else Highest (Max (set (map (\<lambda>m. snd (relevant_score m)) rel)))
             (map title (filter (\<lambda>m. snd (relevant_score m)
                  = Max (set (map (\<lambda>m. snd (relevant_score m)) rel))) rel)))"
proof -
  let ?rel = "filter (\<lambda>m. fst (relevant_score m)) ms"
  let ?scs = "map (\<lambda>m. snd (relevant_score m)) ?rel"
  show ?thesis
  proof (cases "?rel = []")
    case True
    then show ?thesis
      by (simp add: menu_print_highest_score_movies_def highest_loop_eq Let_def)
  next
    case False
    then have ne: "?scs \<noteq> []" by simp
    have "\<forall>x \<in> set ?scs. - 1 \<le> x" using assms by auto
    from fold_max_Max [OF ne this] have M: "fold max ?scs (- 1) = Max (set ?scs)" .
    from ne have "set ?scs \<noteq> {}" by (simp only: set_empty not_False_eq_True)
    then have "Max (set ?scs) \<in> set ?scs" by simp
    then have "filter (\<lambda>m. snd (relevant_score m) = Max (set ?scs)) ?rel \<noteq> []"
      by (auto simp: filter_empty_conv)
    with False M show ?thesis
      by (simp add: menu_print_highest_score_movies_def highest_loop_eq Let_def)
  qed
qed

text \<open>
  Claim C3. The highest-score query does not hold for negative relevant scores: the
  row below gives (for every behaviour of the date parser) a record with the relevant
  score -5, and on the collection of that record alone the function reports that no movie
  has a relevant score.
\<close>

theorem highest_score_negative:
  "create_movie fromisoformat
     (map_of [(''rotten_tomatoes_link'', Some ''m/x''), (''movie_title'', Some ''X''),
              (''content_rating'', Some ''R''), (''genre'', Some ''DRAMA''),
              (''audience_rating'', Some ''-5''), (''audience_count'', Some ''150'')])
     empty_persons
   = (Inr \<lparr>cls = Drama, rt_link = ''m/x'', title = ''X'', rating = Some 4,
           directors = [], release_date = None, streaming_date = None, length_m = Some 0,
           company = None, score = Some (- 5), count_m = Some 150\<rparr>, empty_persons)
   \<and> relevant_score \<lparr>cls = Drama, rt_link = ''m/x'', title = ''X'', rating = Some 4,
           directors = [], release_date = None, streaming_date = None, length_m = Some 0,
           company = None, score = Some (- 5), count_m = Some 150\<rparr> = (True, - 5)
   \<and> menu_print_highest_score_movies
        [\<lparr>cls = Drama, rt_link = ''m/x'', title = ''X'', rating = Some 4,
           directors = [], release_date = None, streaming_date = None, length_m = Some 0,
           company = None, score = Some (- 5), count_m = Some 150\<rparr>] = NoRelevantScore"
  by code_simp

subsection \<open>Menu option 8: score list\<close>

lemma count_scores_inv:
  "count_scores ms (\<lambda>s. if 0 \<le> s \<and> s \<le> 100 then Some (g s) else None) =
     Inr (\<lambda>s. if 0 \<le> s \<and> s \<le> 100
               then Some (g s + int (length (filter (\<lambda>m. score m = Some s) ms))) else None)"
proof (induction ms arbitrary: g)
  case Nil
  show ?case by (simp cong: if_cong)
next
  case (Cons m ms)
  show ?case
  proof (cases "score m")
    case None
    then show ?thesis using Cons.IH [of g] by (simp cong: if_cong)
  next
    case (Some v)
    show ?thesis
    proof (cases "0 \<le> v \<and> v \<le> 100")
      case False
      then have "\<And>s. 0 \<le> s \<and> s \<le> 100 \<Longrightarrow> Some v \<noteq> Some s" by auto
      with False Some Cons.IH [of g] show ?thesis by (auto intro!: ext)
    next
      case True
      have upd: "(\<lambda>s. if 0 \<le> s \<and> s \<le> 100 then Some (g s) else None)(v \<mapsto> g v + 1)
               = (\<lambda>s. if 0 \<le> s \<and> s \<le> 100 then Some ((g(v := g v + 1)) s) else None)"
        using True by (auto intro!: ext)
      show ?thesis
        using True Some Cons.IH [of "g(v := g v + 1)"]
        by (simp add: upd) (auto intro!: ext)
    qed
  qed
qed

lemma read_counts_map:
  "\<forall>v \<in> set vs. c v \<noteq> None \<Longrightarrow> read_counts c vs = Inr (map (\<lambda>v. (v, the (c v))) vs)"
  by (induction vs) auto

lemma bucket_sum:
  "(\<Sum>s\<leftarrow>[a..b]. int (length (filter (\<lambda>m. score m = Some s) ms)))
     = int (length (filter (\<lambda>m. case score m of None \<Rightarrow> False | Some s \<Rightarrow> a \<le> s \<and> s \<le> b) ms))"
proof (induction ms)
  case Nil
  show ?case by simp
next
  case (Cons m ms)
  have one: "(\<Sum>s\<leftarrow>[a..b]. (if score m = Some s then 1 else 0))
        = (case score m of None \<Rightarrow> 0 | Some s \<Rightarrow> if a \<le> s \<and> s \<le> b then (1::int) else 0)"
    by (simp add: sum_list_distinct_conv_sum_set split: option.splits) 
  have "(\<Sum>s\<leftarrow>[a..b]. int (length (filter (\<lambda>m. score m = Some s) (m # ms))))
      = (\<Sum>s\<leftarrow>[a..b]. (if score m = Some s then 1 else 0) + int (length (filter (\<lambda>m. score m = Some s) ms)))"
    by (intro arg_cong [where f = sum_list] map_cong refl) simp
  also have "\<dots> = (\<Sum>s\<leftarrow>[a..b]. (if score m = Some s then 1 else 0))
                 + (\<Sum>s\<leftarrow>[a..b]. int (length (filter (\<lambda>m. score m = Some s) ms)))"
    by (simp add: sum_list_addf)
  finally show ?case using Cons.IH one by (simp split: option.splits)
qed

lemma score_list_eq:
  "menu_print_score_list ms =
     Inr (map (\<lambda>s. (s, int (length (filter (\<lambda>m. score m = Some s) ms)))) [0..100])"
proof -
  have "count_scores ms initial_counts = Inr (\<lambda>s. if 0 \<le> s \<and> s \<le> 100
               then Some (0 + int (length (filter (\<lambda>m. score m = Some s) ms))) else None)"
    unfolding initial_counts_def by (rule count_scores_inv)
  then show ?thesis
    by (simp add: menu_print_score_list_def read_counts_map)
qed

text \<open>
  Claim C8. The score list has 101 entries, for the values 0 to 100 in order; the
  entry for \<open>s\<close> counts the records whose score is present and equal to \<open>s\<close>; the
  entries add up to the number of records whose score is present and between 0 and
  100.
\<close>

theorem score_histogram:
  "\<exists>out. menu_print_score_list ms = Inr out
     \<and> length out = 101
     \<and> map fst out = [0..100]
     \<and> out = map (\<lambda>s. (s, int (length (filter (\<lambda>m. score m = Some s) ms)))) [0..100]
     \<and> sum_list (map snd out)
         = int (length (filter (\<lambda>m. case score m of None \<Rightarrow> False
                                      | Some s \<Rightarrow> 0 \<le> s \<and> s \<le> 100) ms))"
proof -
  let ?out = "map (\<lambda>s. (s, int (length (filter (\<lambda>m. score m = Some s) ms)))) [0..100]"
  have 1: "menu_print_score_list ms = Inr ?out" by (rule score_list_eq)
  have 2: "length ?out = 101" by simp
  have 3: "map fst ?out = [0..100]" by (simp add: comp_def)
  have 4: "sum_list (map snd ?out)
         = int (length (filter (\<lambda>m. case score m of None \<Rightarrow> False
                                      | Some s \<Rightarrow> 0 \<le> s \<and> s \<le> 100) ms))"
    using bucket_sum [where a = 0 and b = 100 and ms = ms] by (simp add: comp_def)
  from 1 2 3 4 show ?thesis by blast
qed

text \<open>
  Scores 0, 100, absent and 150: one record in bucket 0, one in bucket 100, none
  elsewhere, two in all.
\<close>

theorem score_histogram_witness:
  "menu_print_score_list [scored (Some 0), scored (Some 100), scored None, scored (Some 150)]
     = Inr (map (\<lambda>s. (s, if s = 0 \<or> s = 100 then 1 else 0)) [0..100])
   \<and> sum_list (map snd (map (\<lambda>s. (s, if s = 0 \<or> s = 100 then 1 else 0)) [0..100])) = (2::int)"
proof -
  let ?ms = "[scored (Some 0), scored (Some 100), scored None, scored (Some 150)]"
  from score_histogram [of ?ms] obtain out where
    o: "menu_print_score_list ?ms = Inr out"
       "out = map (\<lambda>s. (s, int (length (filter (\<lambda>m. score m = Some s) ?ms)))) [0..100]"
       "sum_list (map snd out)
         = int (length (filter (\<lambda>m. case score m of None \<Rightarrow> False
                                      | Some s \<Rightarrow> 0 \<le> s \<and> s \<le> 100) ?ms))"
    by blast
  have e: "out = map (\<lambda>s. (s, if s = 0 \<or> s = 100 then 1 else 0)) [0..100]"
    unfolding o(2) by (rule map_cong) (auto simp: scored_def)
  from o(3) have "sum_list (map snd out) = 2" by (simp add: scored_def)
  with o(1) e show ?thesis by simp
qed

subsection \<open>Menu option 9: export\<close>

lemma sort_key_Nil_iff: "sort_key f xs = [] \<longleftrightarrow> xs = []"
  by (metis length_0_conv length_sort)

text \<open>
  Claim C9. The export reports that there is nothing to export exactly when every
  record has a relevant score. Otherwise it writes a non-empty list that is a
  permutation of the records without a relevant score (absent score, absent count or a
  count below 100), sorted by title.
\<close>

theorem export_spec:
  "(menu_export_movies_without_relevant_score ms = NothingToExport \<longleftrightarrow>
      (\<forall>m \<in> set ms. fst (relevant_score m)))
   \<and> (\<forall>out. menu_export_movies_without_relevant_score ms = Exported out \<longrightarrow>
        out \<noteq> []
        \<and> mset out = mset (filter (\<lambda>m. \<not> fst (relevant_score m)) ms)
        \<and> sorted (map title out)
        \<and> (\<forall>m. m \<in> set out \<longleftrightarrow> m \<in> set ms \<and>
              (score m = None \<or> count_m m = None \<or> (\<exists>c. count_m m = Some c \<and> c < 100))))"
proof -
  let ?sel = "filter (\<lambda>m. \<not> fst (relevant_score m)) ms"
  have none: "menu_export_movies_without_relevant_score ms = NothingToExport \<longleftrightarrow> ?sel = []"
    by (simp add: menu_export_movies_without_relevant_score_def Let_def)
  have some: "out = sort_key title ?sel \<and> ?sel \<noteq> []"
    if "menu_export_movies_without_relevant_score ms = Exported out" for out
    using that by (simp add: menu_export_movies_without_relevant_score_def Let_def split: if_splits)
  have mem: "m \<in> set (sort_key title ?sel) \<longleftrightarrow> m \<in> set ms \<and>
              (score m = None \<or> count_m m = None \<or> (\<exists>c. count_m m = Some c \<and> c < 100))" for m
    using not_relevant_iff [of m] by auto
  show ?thesis
  proof (intro conjI allI impI)
    show "menu_export_movies_without_relevant_score ms = NothingToExport \<longleftrightarrow>
      (\<forall>m \<in> set ms. fst (relevant_score m))"
      unfolding none by (simp add: filter_empty_conv)
  next
    fix out assume e: "menu_export_movies_without_relevant_score ms = Exported out"
    from some [OF e] show "out \<noteq> []" by (simp add: sort_key_Nil_iff)
    from some [OF e] show "mset out = mset ?sel" by simp
    from some [OF e] show "sorted (map title out)" by simp
    fix m
    from some [OF e] mem [of m] show "m \<in> set out \<longleftrightarrow> m \<in> set ms \<and>
              (score m = None \<or> count_m m = None \<or> (\<exists>c. count_m m = Some c \<and> c < 100))"
      by simp
  qed
qed

text \<open>
  Of four records, the one with score 90 and 100 votes is left out and the others are
  written in the order Akira, Brazil, Zulu; a collection of that one record gives nothing
  to export.
\<close>

theorem export_spec_witness:
  "menu_export_movies_without_relevant_score
     [titled ''Zulu'' (Some 70) (Some 50), titled ''Alien'' (Some 90) (Some 100),
      titled ''Brazil'' None (Some 900), titled ''Akira'' (Some 80) None]
   = Exported [titled ''Akira'' (Some 80) None, titled ''Brazil'' None (Some 900),
               titled ''Zulu'' (Some 70) (Some 50)]
   \<and> sorted (map title [titled ''Akira'' (Some 80) None, titled ''Brazil'' None (Some 900),
               titled ''Zulu'' (Some 70) (Some 50)])
   \<and> titled ''Alien'' (Some 90) (Some 100)
       \<notin> set [titled ''Akira'' (Some 80) None, titled ''Brazil'' None (Some 900),
               titled ''Zulu'' (Some 70) (Some 50)]
   \<and> fst (relevant_score (titled ''Alien'' (Some 90) (Some 100)))
   \<and> menu_export_movies_without_relevant_score [titled ''Alien'' (Some 90) (Some 100)]
       = NothingToExport"
proof -
  let ?ms = "[titled ''Zulu'' (Some 70) (Some 50), titled ''Alien'' (Some 90) (Some 100),
      titled ''Brazil'' None (Some 900), titled ''Akira'' (Some 80) None]"
  let ?out = "[titled ''Akira'' (Some 80) None, titled ''Brazil'' None (Some 900),
               titled ''Zulu'' (Some 70) (Some 50)]"
  have e: "menu_export_movies_without_relevant_score ?ms = Exported ?out"
    by code_simp
  have r: "fst (relevant_score (titled ''Alien'' (Some 90) (Some 100)))"
    by code_simp
  from export_spec [of ?ms] e have
    s: "sorted (map title ?out)"
    and m: "titled ''Alien'' (Some 90) (Some 100) \<in> set ?out \<longleftrightarrow>
         titled ''Alien'' (Some 90) (Some 100) \<in> set ?ms
         \<and> (score (titled ''Alien'' (Some 90) (Some 100)) = None
            \<or> count_m (titled ''Alien'' (Some 90) (Some 100)) = None
            \<or> (\<exists>c. count_m (titled ''Alien'' (Some 90) (Some 100)) = Some c \<and> c < 100))"
    by blast+
  have n: "titled ''Alien'' (Some 90) (Some 100) \<notin> set ?out"
    unfolding m by (simp add: titled_def)
  from export_spec [of "[titled ''Alien'' (Some 90) (Some 100)]"] r
  have "menu_export_movies_without_relevant_score [titled ''Alien'' (Some 90) (Some 100)]
       = NothingToExport" by simp
  with e s n r show ?thesis by blast
qed

end
